theory Spec2Isabelle
  imports Main
begin

section \<open>Data model (models/Content.ts)\<close>

datatype ContentType =
  BLOG_POST_OUTLINE | PRODUCT_DESCRIPTION | SOCIAL_MEDIA_CAPTION | ARTICLE | EMAIL

datatype JobStatus = QUEUED | PENDING | PROCESSING | COMPLETED | FAILED

text \<open>
  The \<open>IContent\<close> document. \<open>doc_id\<close> is Mongo's \<open>_id\<close> (as the string
  \<open>_id.toString()\<close>), \<open>userId\<close> the owner. A field of type \<open>string | null\<close> is a
  \<open>string option\<close>. The \<open>createdAt\<close>/\<open>updatedAt\<close> timestamps are wall-clock values
  maintained by the database and are left out.
\<close>

record IContent =
  doc_id :: string
  userId :: string
  topic :: string
  contentType :: ContentType
  prompt :: string
  generatedContent :: "string option"
  content :: "string option"
  jobId :: "string option"
  jobStatus :: JobStatus

text \<open>The collection, in natural (insertion) order.\<close>

type_synonym Collection = "IContent list"

text \<open>The \<open>Error\<close> objects the code constructs and throws:
  \<open>new AppError(message, statusCode)\<close> and a plain \<open>new Error(message)\<close>.\<close>

datatype error =
  AppError string nat
  | Error string

fun message :: "error \<Rightarrow> string" where
  "message (AppError m c) = m"
| "message (Error m) = m"

text \<open>What a request handler may throw to the error middleware: one of those errors,
  the schema validation's rejection of the request body, or the database's rejection of
  an insert whose \<open>_id\<close> is already taken.\<close>

datatype thrown =
  Raised error
  | ZodError
  | DuplicateKey

section \<open>Database primitives\<close>

definition findOne :: "(IContent \<Rightarrow> bool) \<Rightarrow> Collection \<Rightarrow> IContent option" where
  "findOne flt coll = find flt coll"

text \<open>\<open>findOneAndUpdate(filter, {$set: ...}, {new: true})\<close>: the first matching
  document is updated and returned as updated; \<open>null\<close> when nothing matches.\<close>

fun findOneAndUpdate ::
  "(IContent \<Rightarrow> bool) \<Rightarrow> (IContent \<Rightarrow> IContent) \<Rightarrow> Collection \<Rightarrow> Collection \<times> IContent option" where
  "findOneAndUpdate flt upd [] = ([], None)"
| "findOneAndUpdate flt upd (d # ds) =
     (if flt d then (upd d # ds, Some (upd d))
      else (d # fst (findOneAndUpdate flt upd ds), snd (findOneAndUpdate flt upd ds)))"

text \<open>\<open>deleteOne(filter)\<close>: removes the first match; the second component is
  \<open>deletedCount\<close>.\<close>

fun deleteOne :: "(IContent \<Rightarrow> bool) \<Rightarrow> Collection \<Rightarrow> Collection \<times> nat" where
  "deleteOne flt [] = ([], 0)"
| "deleteOne flt (d # ds) =
     (if flt d then (ds, 1) else (d # fst (deleteOne flt ds), snd (deleteOne flt ds)))"

text \<open>The filters the service uses: \<open>{ _id: contentId, userId }\<close> and \<open>{ jobId }\<close>.\<close>

definition byIdAndUser :: "string \<Rightarrow> string \<Rightarrow> IContent \<Rightarrow> bool" where
  "byIdAndUser contentId uid d = (doc_id d = contentId \<and> userId d = uid)"

definition byJobId :: "string \<Rightarrow> IContent \<Rightarrow> bool" where
  "byJobId jid d = (jobId d = Some jid)"

text \<open>JavaScript's \<open>!x\<close> on a value of type \<open>string | null | undefined\<close>: true on
  \<open>null\<close>, on \<open>undefined\<close> and on the empty string.\<close>

fun falsy :: "string option \<Rightarrow> bool" where
  "falsy None = True"
| "falsy (Some s) = (s = [])"

section \<open>Content service (services/contentService.ts)\<close>

text \<open>\<open>updateContent\<close>: the \<open>updates\<close> argument has type
  \<open>Partial<Pick<IContent, 'topic' | 'content'>>\<close>; an absent key is \<open>None\<close>.\<close>

record ContentUpdates =
  upd_topic :: "string option"
  upd_content :: "string option"

definition applyUpdates :: "ContentUpdates \<Rightarrow> IContent \<Rightarrow> IContent" where
  "applyUpdates u d =
     d\<lparr>topic := (case upd_topic u of None \<Rightarrow> topic d | Some t \<Rightarrow> t),
       content := (case upd_content u of None \<Rightarrow> content d | Some c \<Rightarrow> Some c)\<rparr>"

definition updateContent ::
  "string \<Rightarrow> string \<Rightarrow> ContentUpdates \<Rightarrow> Collection \<Rightarrow> Collection \<times> (error + IContent)" where
  "updateContent contentId uid updates coll =
     (case findOneAndUpdate (byIdAndUser contentId uid) (applyUpdates updates) coll of
        (coll', None) \<Rightarrow> (coll', Inl (AppError ''Content not found'' 404))
      | (coll', Some c) \<Rightarrow> (coll', Inr c))"

text \<open>\<open>updateContentJobStatus\<close>. The \<open>$set\<close> document \<open>updateData\<close> always carries
  \<open>jobStatus\<close>; \<open>generatedContent\<close> and \<open>content\<close> are present only when written
  (\<open>None\<close> is an absent key).\<close>

record UpdateData =
  set_jobStatus :: JobStatus
  set_generatedContent :: "string option"
  set_content :: "string option"

definition buildUpdateData :: "IContent option \<Rightarrow> JobStatus \<Rightarrow> string option \<Rightarrow> UpdateData" where
  "buildUpdateData existingContent js generated =
     (case generated of
        None \<Rightarrow> \<lparr>set_jobStatus = js, set_generatedContent = None, set_content = None\<rparr>
      | Some g \<Rightarrow>
          \<lparr>set_jobStatus = js, set_generatedContent = Some g,
           set_content = (if falsy (Option.bind existingContent content) then Some g else None)\<rparr>)"

definition applySet :: "UpdateData \<Rightarrow> IContent \<Rightarrow> IContent" where
  "applySet u d =
     d\<lparr>jobStatus := set_jobStatus u,
       generatedContent := (case set_generatedContent u of None \<Rightarrow> generatedContent d | Some g \<Rightarrow> Some g),
       content := (case set_content u of None \<Rightarrow> content d | Some c \<Rightarrow> Some c)\<rparr>"

text \<open>
  The function reads the document (\<open>findOne\<close>) and then writes it
  (\<open>findOneAndUpdate\<close>) in two separate database calls. \<open>others\<close> is what the rest of
  the system does to the collection between the two calls; the sequential function is the
  instance where nothing happens in between.
\<close>

definition updateContentJobStatus_interleaved ::
  "(Collection \<Rightarrow> Collection) \<Rightarrow> string \<Rightarrow> JobStatus \<Rightarrow> string option \<Rightarrow> Collection
     \<Rightarrow> Collection \<times> IContent option" where
  "updateContentJobStatus_interleaved others jid js generated coll =
     (let existingContent = findOne (byJobId jid) coll;
          updateData = buildUpdateData existingContent js generated
      in findOneAndUpdate (byJobId jid) (applySet updateData) (others coll))"

definition updateContentJobStatus ::
  "string \<Rightarrow> JobStatus \<Rightarrow> string option \<Rightarrow> Collection \<Rightarrow> Collection \<times> IContent option" where
  "updateContentJobStatus = updateContentJobStatus_interleaved (\<lambda>coll. coll)"

text \<open>\<open>generatePrompt\<close>: a lookup in a table with one template per content type. Every
  template is a non-empty string, so the \<open>||\<close> fallback is never taken for a value of
  the enum.\<close>

definition quoted :: "string \<Rightarrow> string" where
  "quoted s = [CHR 0x22] @ s @ [CHR 0x22]"

fun generatePrompt :: "ContentType \<Rightarrow> string \<Rightarrow> string" where
  "generatePrompt BLOG_POST_OUTLINE t =
     ''Create a comprehensive blog post outline for the topic: '' @ quoted t @
     ''. Include main headings, subheadings, and key points for each section.''"
| "generatePrompt PRODUCT_DESCRIPTION t =
     ''Write an engaging product description for: '' @ quoted t @
     ''. Include key features, benefits, and a compelling call-to-action.''"
| "generatePrompt SOCIAL_MEDIA_CAPTION t =
     ''Create a catchy social media caption for: '' @ quoted t @
     ''. Make it engaging, include relevant hashtags, and keep it appropriate for platforms like Instagram, Twitter, and Facebook.''"
| "generatePrompt ARTICLE t =
     ''Write a well-structured article about: '' @ quoted t @
     ''. Include an introduction, main body with multiple paragraphs, and a conclusion.''"
| "generatePrompt EMAIL t =
     ''Draft a professional email about: '' @ quoted t @
     ''. Include a clear subject line suggestion and a well-structured email body.''"

text \<open>
  \<open>save()\<close> on a document made with \<open>new Content(...)\<close> inserts it; the database
  rejects an \<open>_id\<close> that is already present. \<open>save()\<close> on a document that was loaded
  or already saved writes it back under its \<open>_id\<close>.
\<close>

definition insertDoc :: "IContent \<Rightarrow> Collection \<Rightarrow> thrown + Collection" where
  "insertDoc c coll =
     (if doc_id c \<in> set (map doc_id coll) then Inl DuplicateKey else Inr (coll @ [c]))"

definition saveDoc :: "IContent \<Rightarrow> Collection \<Rightarrow> Collection" where
  "saveDoc c coll = map (\<lambda>d. if doc_id d = doc_id c then c else d) coll"

text \<open>\<open>createContent\<close>; \<open>newId\<close> is the \<open>_id\<close> the driver generates for the new
  document. The schema's \<open>trim\<close> setters and its validators on \<open>topic\<close> and
  \<open>prompt\<close> are not modelled: they bear on these two strings only, and a validator can
  only make a save or an update fail without writing.\<close>

definition createContent ::
  "string \<Rightarrow> string \<Rightarrow> string \<Rightarrow> ContentType \<Rightarrow> Collection \<Rightarrow> thrown + Collection \<times> IContent" where
  "createContent newId uid t ctype coll =
     (let c = \<lparr>doc_id = newId, userId = uid, topic = t, contentType = ctype,
                prompt = generatePrompt ctype t, generatedContent = None, content = None,
                jobId = None, jobStatus = QUEUED\<rparr>
      in case insertDoc c coll of Inl e \<Rightarrow> Inl e | Inr coll' \<Rightarrow> Inr (coll', c))"


definition deleteContent :: "string \<Rightarrow> string \<Rightarrow> Collection \<Rightarrow> Collection \<times> (error + unit)" where
  "deleteContent contentId uid coll =
     (case deleteOne (byIdAndUser contentId uid) coll of
        (coll', deletedCount) \<Rightarrow>
          if deletedCount = 0 then (coll', Inl (AppError ''Content not found'' 404))
          else (coll', Inr ()))"

definition getContentByJobId :: "string \<Rightarrow> Collection \<Rightarrow> IContent option" where
  "getContentByJobId jid coll = findOne (byJobId jid) coll"

definition rollbackContent ::
  "string \<Rightarrow> string \<Rightarrow> Collection \<Rightarrow> Collection \<times> (error + IContent)" where
  "rollbackContent contentId uid coll =
     (case findOne (byIdAndUser contentId uid) coll of
        None \<Rightarrow> (coll, Inl (AppError ''Content not found'' 404))
      | Some c \<Rightarrow>
          if falsy (generatedContent c)
          then (coll, Inl (AppError ''No generated content available to rollback to'' 400))
          else (let c' = c\<lparr>content := generatedContent c\<rparr> in (saveDoc c' coll, Inr c')))"

section \<open>Job queue (queues/contentQueue.ts)\<close>

record ContentGenerationJobData =
  data_contentId :: string
  data_userId :: string
  data_contentType :: ContentType
  data_topic :: string

datatype JobState = Waiting | Delayed | Active | Completed | Failed

record JobResult =
  res_contentId :: string
  res_jobId :: string
  res_generatedContent :: string
  res_status :: JobStatus

record Job =
  job_id :: string
  job_data :: ContentGenerationJobData
  job_state :: JobState
  job_progress :: nat
  job_returnvalue :: "JobResult option"
  job_failedReason :: "string option"
  job_delay :: nat
  job_attemptsMade :: nat

text \<open>The options the queue is constructed with (\<open>defaultJobOptions\<close>): the number of
  attempts and the exponential backoff's base delay in milliseconds.\<close>

record JobOptions =
  attempts :: nat
  backoff_delay :: nat

definition defaultJobOptions :: JobOptions where
  "defaultJobOptions = \<lparr>attempts = 3, backoff_delay = 2000\<rparr>"

text \<open>\<open>contentQueue.add(name, data, {delay, jobId})\<close>: the job is stored under the id
  given in the options, delayed; when a job with that id is already in the queue the
  queue keeps the one it has. The returned job carries the id asked for.\<close>

definition queue_add :: "string \<Rightarrow> ContentGenerationJobData \<Rightarrow> nat \<Rightarrow> Job list \<Rightarrow> Job list \<times> Job" where
  "queue_add jid jobData delay q =
     (case find (\<lambda>j. job_id j = jid) q of
        Some j \<Rightarrow> (q, j)
      | None \<Rightarrow>
          (let j = \<lparr>job_id = jid, job_data = jobData, job_state = Delayed, job_progress = 0,
                    job_returnvalue = None, job_failedReason = None, job_delay = delay,
                    job_attemptsMade = 0\<rparr>
           in (q @ [j], j)))"

definition addContentGenerationJob :: "ContentGenerationJobData \<Rightarrow> Job list \<Rightarrow> Job list \<times> string" where
  "addContentGenerationJob jobData q =
     (case queue_add (''content-'' @ data_contentId jobData) jobData 60000 q of
        (q', job) \<Rightarrow> (q', job_id job))"

record JobStatusInfo =
  info_id :: string
  info_state :: JobState
  info_progress :: nat
  info_returnValue :: "JobResult option"
  info_failedReason :: "string option"
  info_data :: ContentGenerationJobData

definition getJobStatus :: "string \<Rightarrow> Job list \<Rightarrow> JobStatusInfo option" where
  "getJobStatus jid q =
     (case find (\<lambda>j. job_id j = jid) q of
        None \<Rightarrow> None
      | Some job \<Rightarrow>
          Some \<lparr>info_id = job_id job, info_state = job_state job, info_progress = job_progress job,
                info_returnValue = job_returnvalue job, info_failedReason = job_failedReason job,
                info_data = job_data job\<rparr>)"

section \<open>AI service (services/aiService.ts)\<close>

text \<open>
  The generation API is outside the program. A call either answers with a response whose
  \<open>text\<close> is a string or \<open>undefined\<close>, or throws an \<open>Error\<close> with a message, or
  throws something that is not an \<open>Error\<close>. The environment holds the API key and the
  API itself, as a function of the prompt sent. The service's private \<open>generatePrompt\<close>
  has the same templates as the content service's. Once \<open>initializeClient\<close> has
  returned the client is set, so "AI client not initialized" is never thrown. An
  \<open>AppError\<close> thrown inside the \<open>try\<close> is re-thrown as it is; anything else is wrapped.
\<close>

datatype api_outcome = Responds "string option" | ThrowsError string | ThrowsOther

record AiEnv =
  apiKey :: "string option"
  models_generateContent :: "string \<Rightarrow> api_outcome"

definition generateContent :: "AiEnv \<Rightarrow> ContentType \<Rightarrow> string \<Rightarrow> error + string" where
  "generateContent env ctype t =
     (if falsy (apiKey env) then Inl (AppError ''GOOGLE_GENAI_API_KEY is not configured'' 500)
      else
        (case models_generateContent env (generatePrompt ctype t) of
           Responds generatedText \<Rightarrow>
             (case generatedText of
                None \<Rightarrow> Inl (AppError ''Failed to generate content from AI - no text returned'' 500)
              | Some txt \<Rightarrow>
                  if txt = []
                  then Inl (AppError ''Failed to generate content from AI - no text returned'' 500)
                  else Inr txt)
         | ThrowsError m \<Rightarrow> Inl (AppError (''AI content generation failed: '' @ m) 500)
         | ThrowsOther \<Rightarrow> Inl (AppError ''AI content generation failed: Unknown error'' 500)))"

section \<open>The system state\<close>

text \<open>
  The message published on the \<open>job-updates\<close> channel, and the effects the worker
  performs in the order it performs them: a write to the content store through
  \<open>updateContentJobStatus\<close> (job id and status written) and a publish on a channel.
\<close>

record JobUpdate =
  msg_jobId :: string
  msg_contentId :: string
  msg_status :: JobStatus
  msg_generatedContent :: "string option"
  msg_error :: "string option"

datatype effect = DbWrite string JobStatus | Publish string JobUpdate

record World =
  contents :: Collection
  queue :: "Job list"
  trace :: "effect list"

definition init_world :: World where
  "init_world = \<lparr>contents = [], queue = [], trace = []\<rparr>"

section \<open>Worker (worker.ts)\<close>

definition db_updateContentJobStatus ::
  "string \<Rightarrow> JobStatus \<Rightarrow> string option \<Rightarrow> World \<Rightarrow> World \<times> IContent option" where
  "db_updateContentJobStatus jid js generated w =
     (case updateContentJobStatus jid js generated (contents w) of
        (coll', r) \<Rightarrow> (w\<lparr>contents := coll', trace := trace w @ [DbWrite jid js]\<rparr>, r))"

definition redis_publish :: "string \<Rightarrow> JobUpdate \<Rightarrow> World \<Rightarrow> World" where
  "redis_publish channel msg w = w\<lparr>trace := trace w @ [Publish channel msg]\<rparr>"

text \<open>The \<open>catch\<close> block of the processor. Every value thrown inside the \<open>try\<close> is an
  \<open>Error\<close> (an \<open>AppError\<close> of the AI service, or the processor's own \<open>Error\<close>), so
  the message published is \<open>error.message\<close>.\<close>

definition catch_block :: "Job \<Rightarrow> error \<Rightarrow> World \<Rightarrow> World \<times> (error + JobResult)" where
  "catch_block job err w =
     (let w1 = fst (db_updateContentJobStatus (job_id job) FAILED None w);
          w2 = redis_publish ''job-updates''
                 \<lparr>msg_jobId = job_id job, msg_contentId = data_contentId (job_data job),
                  msg_status = FAILED, msg_generatedContent = None,
                  msg_error = Some (message err)\<rparr> w1
      in (w2, Inl err))"

text \<open>The processor run on one job: \<open>Inl\<close> is the error re-thrown to the queue,
  \<open>Inr\<close> the job's return value.\<close>

definition processor :: "AiEnv \<Rightarrow> Job \<Rightarrow> World \<Rightarrow> World \<times> (error + JobResult)" where
  "processor env job w =
     (let w1 = fst (db_updateContentJobStatus (job_id job) PROCESSING None w) in
      case generateContent env (data_contentType (job_data job)) (data_topic (job_data job)) of
        Inl err \<Rightarrow> catch_block job err w1
      | Inr generated \<Rightarrow>
          (case db_updateContentJobStatus (job_id job) COMPLETED (Some generated) w1 of
             (w2, None) \<Rightarrow>
               catch_block job (Error (''Content not found for job ID: '' @ job_id job)) w2
           | (w2, Some c) \<Rightarrow>
               (let w3 = redis_publish ''job-updates''
                           \<lparr>msg_jobId = job_id job, msg_contentId = doc_id c,
                            msg_status = COMPLETED, msg_generatedContent = Some generated,
                            msg_error = None\<rparr> w2
                in (w3, Inr \<lparr>res_contentId = doc_id c, res_jobId = job_id job,
                              res_generatedContent = generated, res_status = COMPLETED\<rparr>))))"

section \<open>Controller (controllers/contentController.ts)\<close>

text \<open>A request body as parsed JSON; an object is the list of its properties.\<close>

datatype json =
  JNull | JBool bool | JNum int | JStr string | JArr "json list" | JObj "(string \<times> json) list"

text \<open>\<open>z.string().min(lo).max(hi).optional()\<close> on the value of a property
  (\<open>None\<close>: the property is absent): absent is accepted, a string within the bounds is
  accepted, everything else is rejected. The length of a string is the length of the
  list of its characters.\<close>

fun optionalString :: "nat \<Rightarrow> nat option \<Rightarrow> json option \<Rightarrow> thrown + string option" where
  "optionalString lo hi None = Inr None"
| "optionalString lo hi (Some (JStr s)) =
     (if lo \<le> length s \<and> (case hi of None \<Rightarrow> True | Some h \<Rightarrow> length s \<le> h)
      then Inr (Some s) else Inl ZodError)"
| "optionalString lo hi (Some v) = Inl ZodError"

text \<open>\<open>updateContentSchema.parse\<close>: an object schema keeps the two declared keys and
  strips every other key of the body.\<close>

fun updateContentSchema_parse :: "json \<Rightarrow> thrown + ContentUpdates" where
  "updateContentSchema_parse (JObj props) =
     (case optionalString 1 (Some 500) (map_of props ''topic'') of
        Inl e \<Rightarrow> Inl e
      | Inr t \<Rightarrow>
          (case optionalString 0 None (map_of props ''content'') of
             Inl e \<Rightarrow> Inl e
           | Inr c \<Rightarrow> Inr \<lparr>upd_topic = t, upd_content = c\<rparr>))"
| "updateContentSchema_parse v = Inl ZodError"

fun nativeEnum_ContentType :: "json option \<Rightarrow> thrown + ContentType" where
  "nativeEnum_ContentType (Some (JStr s)) =
     (if s = ''blog_post_outline'' then Inr BLOG_POST_OUTLINE
      else if s = ''product_description'' then Inr PRODUCT_DESCRIPTION
      else if s = ''social_media_caption'' then Inr SOCIAL_MEDIA_CAPTION
      else if s = ''article'' then Inr ARTICLE
      else if s = ''email'' then Inr EMAIL
      else Inl ZodError)"
| "nativeEnum_ContentType v = Inl ZodError"

fun createContentSchema_parse :: "json \<Rightarrow> thrown + string \<times> ContentType" where
  "createContentSchema_parse (JObj props) =
     (case map_of props ''topic'' of
        Some (JStr s) \<Rightarrow>
          (if 1 \<le> length s \<and> length s \<le> 500
           then (case nativeEnum_ContentType (map_of props ''contentType'') of
                   Inl e \<Rightarrow> Inl e
                 | Inr ctype \<Rightarrow> Inr (s, ctype))
           else Inl ZodError)
      | _ \<Rightarrow> Inl ZodError)"
| "createContentSchema_parse v = Inl ZodError"

text \<open>The responses: a status code and the JSON sent. A handler either sends a response
  or throws (\<open>Inl\<close>), leaving the error to the error middleware. \<open>Failure\<close> is
  \<open>{success: false, message}\<close>; \<open>Accepted\<close> and \<open>ContentData\<close> carry the document the
  response's fields are read from (and \<open>Accepted\<close> the job id); \<open>JobStatusData\<close> is the
  job id with the two objects the status handler builds.\<close>

record JobStatusView =
  view_state :: JobState
  view_progress :: nat
  view_failedReason :: "string option"

record ContentStatusView =
  view_id :: string
  view_jobStatus :: JobStatus
  view_generatedContent :: "string option"
  view_content :: "string option"

datatype payload =
  Failure string
  | Accepted IContent string
  | ContentData IContent
  | JobStatusData string JobStatusView ContentStatusView
  | NoBody

type_synonym response = "nat \<times> payload"

definition createContentHandler ::
  "string option \<Rightarrow> json \<Rightarrow> string \<Rightarrow> World \<Rightarrow> World \<times> (thrown + response)" where
  "createContentHandler user body newId w =
     (case user of
        None \<Rightarrow> (w, Inr (401, Failure ''User not authenticated''))
      | Some uid \<Rightarrow>
          (case createContentSchema_parse body of
             Inl e \<Rightarrow> (w, Inl e)
           | Inr (t, ctype) \<Rightarrow>
               (case createContent newId uid t ctype (contents w) of
                  Inl e \<Rightarrow> (w, Inl e)
                | Inr (coll1, c) \<Rightarrow>
                    (case addContentGenerationJob
                            \<lparr>data_contentId = doc_id c, data_userId = uid,
                             data_contentType = ctype, data_topic = t\<rparr> (queue w) of
                       (q', jid) \<Rightarrow>
                         (let c' = c\<lparr>jobId := Some jid\<rparr>
                          in (w\<lparr>contents := saveDoc c' coll1, queue := q'\<rparr>,
                              Inr (202, Accepted c' jid)))))))"


definition updateContentHandler ::
  "string option \<Rightarrow> string \<Rightarrow> json \<Rightarrow> World \<Rightarrow> World \<times> (thrown + response)" where
  "updateContentHandler user contentId body w =
     (case user of
        None \<Rightarrow> (w, Inr (401, Failure ''User not authenticated''))
      | Some uid \<Rightarrow>
          (case updateContentSchema_parse body of
             Inl e \<Rightarrow> (w, Inl e)
           | Inr validatedData \<Rightarrow>
               (case updateContent contentId uid validatedData (contents w) of
                  (coll', Inl e) \<Rightarrow> (w\<lparr>contents := coll'\<rparr>, Inl (Raised e))
                | (coll', Inr c) \<Rightarrow> (w\<lparr>contents := coll'\<rparr>, Inr (200, ContentData c)))))"

definition deleteContentHandler ::
  "string option \<Rightarrow> string \<Rightarrow> World \<Rightarrow> World \<times> (thrown + response)" where
  "deleteContentHandler user contentId w =
     (case user of
        None \<Rightarrow> (w, Inr (401, Failure ''User not authenticated''))
      | Some uid \<Rightarrow>
          (case deleteContent contentId uid (contents w) of
             (coll', Inl e) \<Rightarrow> (w\<lparr>contents := coll'\<rparr>, Inl (Raised e))
           | (coll', Inr u) \<Rightarrow> (w\<lparr>contents := coll'\<rparr>, Inr (204, NoBody))))"

definition getJobStatusHandler ::
  "string option \<Rightarrow> string \<Rightarrow> World \<Rightarrow> thrown + response" where
  "getJobStatusHandler user jid w =
     (case user of
        None \<Rightarrow> Inr (401, Failure ''User not authenticated'')
      | Some uid \<Rightarrow>
          (case getJobStatus jid (queue w) of
             None \<Rightarrow> Inr (404, Failure ''Job not found'')
           | Some js \<Rightarrow>
               (case getContentByJobId jid (contents w) of
                  None \<Rightarrow> Inr (404, Failure ''Content not found or access denied'')
                | Some c \<Rightarrow>
                    if userId c \<noteq> uid
                    then Inr (404, Failure ''Content not found or access denied'')
                    else Inr (200, JobStatusData jid
                            \<lparr>view_state = info_state js, view_progress = info_progress js,
                             view_failedReason = info_failedReason js\<rparr>
                            \<lparr>view_id = doc_id c, view_jobStatus = jobStatus c,
                             view_generatedContent = generatedContent c,
                             view_content = content c\<rparr>))))"

definition rollbackContentHandler ::
  "string option \<Rightarrow> string \<Rightarrow> World \<Rightarrow> World \<times> (thrown + response)" where
  "rollbackContentHandler user contentId w =
     (case user of
        None \<Rightarrow> (w, Inr (401, Failure ''User not authenticated''))
      | Some uid \<Rightarrow>
          (case rollbackContent contentId uid (contents w) of
             (coll', Inl e) \<Rightarrow> (w\<lparr>contents := coll'\<rparr>, Inl (Raised e))
           | (coll', Inr c) \<Rightarrow> (w\<lparr>contents := coll'\<rparr>, Inr (200, ContentData c))))"

section \<open>Runs of the system\<close>

text \<open>
  What happens to the system: the four state-changing requests of the API, each with the
  authenticated user (if any), and the worker processing a job of the queue under some
  behaviour of the generation API. The queue's own bookkeeping of a job (its state, its
  attempts) belongs to the queue library and is not part of a step.
\<close>

datatype event =
  PostContent "string option" json string
  | PutContent "string option" string json
  | PostRollback "string option" string
  | DeleteContent "string option" string
  | WorkerRuns string AiEnv

fun step :: "World \<Rightarrow> event \<Rightarrow> World" where
  "step w (PostContent user body newId) = fst (createContentHandler user body newId w)"
| "step w (PutContent user contentId body) = fst (updateContentHandler user contentId body w)"
| "step w (PostRollback user contentId) = fst (rollbackContentHandler user contentId w)"
| "step w (DeleteContent user contentId) = fst (deleteContentHandler user contentId w)"
| "step w (WorkerRuns jid env) =
     (case find (\<lambda>j. job_id j = jid) (queue w) of
        None \<Rightarrow> w
      | Some job \<Rightarrow> fst (processor env job w))"

definition run :: "World \<Rightarrow> event list \<Rightarrow> World" where
  "run w evs = foldl step w evs"

section \<open>Retry policy of the job queue\<close>

text \<open>
  Modelled from the spec: the retry loop of the Job Queue, which is the queue library's
  and not in the sources; only its options (\<open>defaultJobOptions\<close>) are. The spec: on
  handler failure the job is re-enqueued with delay \<open>backoff.base * 2^(attemptsMade-1)\<close>,
  up to \<open>maxAttempts\<close>; after the final failed attempt the job is terminal \<open>failed\<close> and
  is never retried again. \<open>attemptsMade\<close> counts the attempts finished so far.
\<close>

definition backoffDelay :: "JobOptions \<Rightarrow> nat \<Rightarrow> nat" where
  "backoffDelay opts attemptsMade = backoff_delay opts * 2 ^ (attemptsMade - 1)"

datatype queue_event = Attempt nat | RetryAfter nat | TerminalCompleted | TerminalFailed

text \<open>
  Modelled from the spec: the life of one job under that policy, as the list of what the
  queue does. \<open>succeeds k\<close> tells whether the handler succeeds on the \<open>k\<close>-th attempt;
  the third argument is \<open>attemptsMade\<close> before the attempt.
\<close>

function runJob :: "JobOptions \<Rightarrow> (nat \<Rightarrow> bool) \<Rightarrow> nat \<Rightarrow> queue_event list" where
  "runJob opts succeeds attemptsMade =
     (if succeeds (attemptsMade + 1) then [Attempt (attemptsMade + 1), TerminalCompleted]
      else if attemptsMade + 1 < attempts opts
      then Attempt (attemptsMade + 1) # RetryAfter (backoffDelay opts (attemptsMade + 1))
             # runJob opts succeeds (attemptsMade + 1)
      else [Attempt (attemptsMade + 1), TerminalFailed])"
  by pat_completeness auto
termination
  by (relation "measure (\<lambda>(opts, succeeds, attemptsMade). attempts opts - attemptsMade)") auto

fun retryDelays :: "queue_event list \<Rightarrow> nat list" where
  "retryDelays [] = []"
| "retryDelays (RetryAfter d # es) = d # retryDelays es"
| "retryDelays (e # es) = retryDelays es"

fun attemptsOf :: "queue_event list \<Rightarrow> nat list" where
  "attemptsOf [] = []"
| "attemptsOf (Attempt k # es) = k # attemptsOf es"
| "attemptsOf (e # es) = attemptsOf es"

section \<open>Well-formed documents\<close>

text \<open>What every document of a run satisfies: its job id is derived from its id, and its
  generated content, when there is one, is not the empty string.\<close>

definition consistent :: "IContent \<Rightarrow> bool" where
  "consistent d = (jobId d = Some (''content-'' @ doc_id d) \<and> generatedContent d \<noteq> Some [])"

text \<open>The fields of a document that a user update must leave alone.\<close>

definition protected_fields ::
  "IContent \<Rightarrow> string \<times> string \<times> ContentType \<times> string \<times> string option \<times> string option \<times> JobStatus" where
  "protected_fields d =
     (doc_id d, userId d, contentType d, prompt d, generatedContent d, jobId d, jobStatus d)"

section \<open>A worked scenario\<close>

text \<open>The end-to-end example: user \<open>u1\<close> creates an article on topic \<open>T\<close>, the
  document gets the id \<open>C1\<close>, the generation API answers \<open>AI TEXT\<close> (or fails), the user
  edits the content.\<close>

definition body_create :: json where
  "body_create = JObj [(''topic'', JStr ''T''), (''contentType'', JStr ''article'')]"

definition ai_ok :: AiEnv where
  "ai_ok = \<lparr>apiKey = Some ''key'', models_generateContent = (\<lambda>p. Responds (Some ''AI TEXT''))\<rparr>"

definition ai_down :: AiEnv where
  "ai_down = \<lparr>apiKey = Some ''key'', models_generateContent = (\<lambda>p. ThrowsError ''quota exceeded'')\<rparr>"

definition doc_C1 :: "string option \<Rightarrow> string option \<Rightarrow> JobStatus \<Rightarrow> IContent" where
  "doc_C1 g c js =
     \<lparr>doc_id = ''C1'', userId = ''u1'', topic = ''T'', contentType = ARTICLE,
      prompt = generatePrompt ARTICLE ''T'', generatedContent = g, content = c,
      jobId = Some ''content-C1'', jobStatus = js\<rparr>"

definition job_C1 :: Job where
  "job_C1 =
     \<lparr>job_id = ''content-C1'',
      job_data = \<lparr>data_contentId = ''C1'', data_userId = ''u1'',
                   data_contentType = ARTICLE, data_topic = ''T''\<rparr>,
      job_state = Delayed, job_progress = 0, job_returnvalue = None,
      job_failedReason = None, job_delay = 60000, job_attemptsMade = 0\<rparr>"

definition msg_C1 :: "JobStatus \<Rightarrow> string option \<Rightarrow> string option \<Rightarrow> JobUpdate" where
  "msg_C1 js g e =
     \<lparr>msg_jobId = ''content-C1'', msg_contentId = ''C1'', msg_status = js,
      msg_generatedContent = g, msg_error = e\<rparr>"

text \<open>The state right after the creation; the state once the job has completed, with
  the job still in the queue; and that state after the queue has dropped the job.\<close>

definition world_created :: World where
  "world_created = \<lparr>contents = [doc_C1 None None QUEUED], queue = [job_C1], trace = []\<rparr>"

definition world_completed :: World where
  "world_completed =
     \<lparr>contents = [doc_C1 (Some ''AI TEXT'') (Some ''AI TEXT'') COMPLETED], queue = [job_C1],
      trace = []\<rparr>"

definition world_pruned :: World where
  "world_pruned =
     \<lparr>contents = [doc_C1 (Some ''AI TEXT'') (Some ''AI TEXT'') COMPLETED], queue = [],
      trace = []\<rparr>"

text \<open>A request body that names fields a user update does not accept.\<close>

definition body_overreach :: json where
  "body_overreach =
     JObj [(''topic'', JStr ''T2''), (''generatedContent'', JStr ''forged''),
           (''jobStatus'', JStr ''queued''), (''jobId'', JStr ''content-X''),
           (''prompt'', JStr ''P'')]"

section \<open>Lemmas on the database primitives\<close>

lemma findOneAndUpdate_result:
  "snd (findOneAndUpdate flt upd coll) = map_option upd (find flt coll)"
  by (induction coll) simp_all

lemma findOneAndUpdate_find_same:
  assumes "\<And>d. flt (upd d) = flt d"
  shows "find flt (fst (findOneAndUpdate flt upd coll)) = map_option upd (find flt coll)"
  using assms by (induction coll) simp_all

lemma byJobId_applySet [simp]: "byJobId jid (applySet u d) = byJobId jid d"
  by (simp add: byJobId_def applySet_def)

lemma findOneAndUpdate_frame:
  assumes "\<And>d. f (upd d) = f d"
  shows "map f (fst (findOneAndUpdate flt upd coll)) = map f coll"
  using assms by (induction coll) simp_all

lemma findOneAndUpdate_all:
  assumes "list_all P coll" and "\<And>d. P d \<Longrightarrow> P (upd d)"
  shows "list_all P (fst (findOneAndUpdate flt upd coll))"
  using assms by (induction coll) simp_all

lemma deleteOne_all:
  "list_all P coll \<Longrightarrow> list_all P (fst (deleteOne flt coll))"
  by (induction coll) simp_all

lemma saveDoc_all:
  "list_all P coll \<Longrightarrow> P c \<Longrightarrow> list_all P (saveDoc c coll)"
  by (induction coll) (simp_all add: saveDoc_def)

lemma find_all: "list_all P coll \<Longrightarrow> find flt coll = Some d \<Longrightarrow> P d"
  by (induction coll) (simp_all split: if_splits)

section \<open>Every document of a run is consistent\<close>

lemma addContentGenerationJob_id:
  "snd (addContentGenerationJob jobData q) = ''content-'' @ data_contentId jobData"
proof (cases "find (\<lambda>j. job_id j = ''content-'' @ data_contentId jobData) q")
  case None
  then show ?thesis by (simp add: addContentGenerationJob_def queue_add_def Let_def)
next
  case (Some j)
  then have "job_id j = ''content-'' @ data_contentId jobData"
    by (auto simp: find_Some_iff)
  with Some show ?thesis by (simp add: addContentGenerationJob_def queue_add_def)
qed

lemma generateContent_nonempty: "generateContent env ctype t = Inr g \<Longrightarrow> g \<noteq> []"
  by (auto simp: generateContent_def split: if_splits api_outcome.splits option.splits)

lemma consistent_applyUpdates: "consistent d \<Longrightarrow> consistent (applyUpdates u d)"
  by (simp add: consistent_def applyUpdates_def)

lemma consistent_applySet:
  "consistent d \<Longrightarrow> generated \<noteq> Some [] \<Longrightarrow> consistent (applySet (buildUpdateData e js generated) d)"
  by (auto simp: consistent_def applySet_def buildUpdateData_def split: option.splits)

lemma updateContentJobStatus_consistent:
  assumes "list_all consistent coll" and "generated \<noteq> Some []"
  shows "list_all consistent (fst (updateContentJobStatus jid js generated coll))"
  using assms
  by (simp add: updateContentJobStatus_def updateContentJobStatus_interleaved_def
      findOneAndUpdate_all consistent_applySet)

lemma db_updateContentJobStatus_contents:
  "contents (fst (db_updateContentJobStatus jid js generated w)) =
     fst (updateContentJobStatus jid js generated (contents w))"
  by (simp add: db_updateContentJobStatus_def split: prod.splits)

lemma db_updateContentJobStatus_consistent:
  assumes "list_all consistent (contents w)" and "generated \<noteq> Some []"
  shows "list_all consistent (contents (fst (db_updateContentJobStatus jid js generated w)))"
  using assms by (simp add: db_updateContentJobStatus_contents updateContentJobStatus_consistent)

lemma catch_block_consistent:
  assumes "list_all consistent (contents w)"
  shows "list_all consistent (contents (fst (catch_block job err w)))"
  using assms
  by (simp add: catch_block_def Let_def redis_publish_def db_updateContentJobStatus_consistent)

lemma processor_consistent:
  assumes "list_all consistent (contents w)"
  shows "list_all consistent (contents (fst (processor env job w)))"
proof -
  let ?w1 = "fst (db_updateContentJobStatus (job_id job) PROCESSING None w)"
  have w1: "list_all consistent (contents ?w1)"
    using assms by (simp add: db_updateContentJobStatus_consistent)
  show ?thesis
  proof (cases "generateContent env (data_contentType (job_data job)) (data_topic (job_data job))")
    case (Inl err)
    then show ?thesis
      using w1 by (simp add: processor_def Let_def catch_block_consistent)
  next
    case (Inr g)
    then have g: "Some g \<noteq> Some []"
      by (simp add: generateContent_nonempty)
    let ?r = "db_updateContentJobStatus (job_id job) COMPLETED (Some g) ?w1"
    have w2: "list_all consistent (contents (fst ?r))"
      using w1 g by (rule db_updateContentJobStatus_consistent)
    show ?thesis
    proof (cases "snd ?r")
      case None
      then show ?thesis
        using Inr w2
        by (simp add: processor_def Let_def catch_block_consistent split_beta)
    next
      case (Some c)
      then show ?thesis
        using Inr w2
        by (simp add: processor_def Let_def redis_publish_def split_beta)
    qed
  qed
qed

lemma saveDoc_absent:
  "doc_id c \<notin> set (map doc_id coll) \<Longrightarrow> saveDoc c coll = coll"
  by (induction coll) (auto simp: saveDoc_def)

lemma createContentHandler_accepted:
  assumes "createContentHandler user body newId w = (w', Inr (202, Accepted c jid))"
  shows "jid = ''content-'' @ newId \<and> doc_id c = newId \<and> jobId c = Some jid
         \<and> jobStatus c = QUEUED \<and> generatedContent c = None \<and> content c = None
         \<and> contents w' = contents w @ [c] \<and> newId \<notin> set (map doc_id (contents w))"
proof -
  from assms obtain uid where user: "user = Some uid"
    by (cases user) (simp_all add: createContentHandler_def)
  from assms user obtain t ctype where parse: "createContentSchema_parse body = Inr (t, ctype)"
    by (cases "createContentSchema_parse body") (auto simp: createContentHandler_def)
  let ?c0 = "\<lparr>doc_id = newId, userId = uid, topic = t, contentType = ctype,
               prompt = generatePrompt ctype t, generatedContent = None, content = None,
               jobId = None, jobStatus = QUEUED\<rparr>"
  have fresh: "newId \<notin> set (map doc_id (contents w))"
    using assms user parse
    by (auto simp: createContentHandler_def createContent_def insertDoc_def Let_def
        split: if_splits)
  then have created: "createContent newId uid t ctype (contents w) = Inr (contents w @ [?c0], ?c0)"
    by (simp add: createContent_def insertDoc_def Let_def)
  let ?c' = "?c0\<lparr>jobId := Some (''content-'' @ newId)\<rparr>"
  have saved: "saveDoc ?c' (contents w @ [?c0]) = contents w @ [?c']"
    using fresh saveDoc_absent [of ?c' "contents w"] by (simp add: saveDoc_def)
  have "c = ?c' \<and> jid = ''content-'' @ newId \<and> contents w' = contents w @ [?c']"
    using assms user parse created saved
    by (auto simp: createContentHandler_def Let_def split_beta addContentGenerationJob_id)
  with fresh show ?thesis by simp
qed

lemma createContentHandler_contents:
  "contents (fst (createContentHandler user body newId w)) = contents w \<or>
   (\<exists>c jid. createContentHandler user body newId w = (fst (createContentHandler user body newId w), Inr (202, Accepted c jid)))"
  by (auto simp: createContentHandler_def createContent_def insertDoc_def Let_def split_beta
      split: option.splits sum.splits if_splits)

lemma createContentHandler_consistent:
  assumes "list_all consistent (contents w)"
  shows "list_all consistent (contents (fst (createContentHandler user body newId w)))"
proof -
  from createContentHandler_contents [of user body newId w]
  show ?thesis
  proof
    assume "contents (fst (createContentHandler user body newId w)) = contents w"
    with assms show ?thesis by simp
  next
    assume "\<exists>c jid. createContentHandler user body newId w =
              (fst (createContentHandler user body newId w), Inr (202, Accepted c jid))"
    then obtain c jid where
      "createContentHandler user body newId w =
         (fst (createContentHandler user body newId w), Inr (202, Accepted c jid))"
      by blast
    from createContentHandler_accepted [OF this] assms
    show ?thesis
      by (auto simp: consistent_def)
  qed
qed

lemma updateContentHandler_contents:
  "contents (fst (updateContentHandler user contentId body w)) = contents w \<or>
   (\<exists>uid u. contents (fst (updateContentHandler user contentId body w)) =
      fst (findOneAndUpdate (byIdAndUser contentId uid) (applyUpdates u) (contents w)))"
  by (auto simp: updateContentHandler_def updateContent_def split_beta
      split: option.splits sum.splits prod.splits)

lemma updateContentHandler_consistent:
  assumes "list_all consistent (contents w)"
  shows "list_all consistent (contents (fst (updateContentHandler user contentId body w)))"
  using assms updateContentHandler_contents [of user contentId body w]
  by (auto simp: findOneAndUpdate_all consistent_applyUpdates)

lemma rollbackContent_consistent:
  assumes "list_all consistent coll"
  shows "list_all consistent (fst (rollbackContent contentId uid coll))"
proof (cases "findOne (byIdAndUser contentId uid) coll")
  case None
  with assms show ?thesis by (simp add: rollbackContent_def)
next
  case (Some c)
  then have "consistent c"
    using assms by (auto simp: findOne_def dest: find_all)
  then have "consistent (c\<lparr>content := generatedContent c\<rparr>)"
    by (simp add: consistent_def)
  with Some assms show ?thesis
    by (simp add: rollbackContent_def Let_def saveDoc_all)
qed

lemma rollbackContentHandler_consistent:
  assumes "list_all consistent (contents w)"
  shows "list_all consistent (contents (fst (rollbackContentHandler user contentId w)))"
proof (cases user)
  case None
  with assms show ?thesis by (simp add: rollbackContentHandler_def)
next
  case (Some uid)
  have "contents (fst (rollbackContentHandler user contentId w)) =
          fst (rollbackContent contentId uid (contents w))"
    using Some by (simp add: rollbackContentHandler_def split: prod.splits sum.splits)
  with assms show ?thesis by (simp add: rollbackContent_consistent)
qed

lemma deleteContentHandler_consistent:
  assumes "list_all consistent (contents w)"
  shows "list_all consistent (contents (fst (deleteContentHandler user contentId w)))"
proof (cases user)
  case None
  with assms show ?thesis by (simp add: deleteContentHandler_def)
next
  case (Some uid)
  have "contents (fst (deleteContentHandler user contentId w)) =
          fst (deleteOne (byIdAndUser contentId uid) (contents w))"
    using Some by (simp add: deleteContentHandler_def deleteContent_def split: prod.splits sum.splits)
  with assms show ?thesis by (simp add: deleteOne_all)
qed

lemma step_consistent:
  assumes "list_all consistent (contents w)"
  shows "list_all consistent (contents (step w ev))"
proof (cases ev)
  case (WorkerRuns jid env)
  then show ?thesis
    using assms by (simp add: processor_consistent split: option.splits)
qed (simp_all add: assms createContentHandler_consistent updateContentHandler_consistent
      rollbackContentHandler_consistent deleteContentHandler_consistent)

lemma run_consistent:
  assumes "list_all consistent (contents w)"
  shows "list_all consistent (contents (run w evs))"
  using assms unfolding run_def
  by (induction evs arbitrary: w) (simp_all add: step_consistent)

lemma run_init_consistent: "list_all consistent (contents (run init_world evs))"
  by (rule run_consistent) (simp add: init_world_def)

lemma run_append: "run w (evs @ evs') = run (run w evs) evs'"
  by (simp add: run_def)

section \<open>The worked scenario, step by step\<close>

lemma scenario_created:
  "run init_world [PostContent (Some ''u1'') body_create ''C1''] =
     \<lparr>contents = [doc_C1 None None QUEUED], queue = [job_C1], trace = []\<rparr>"
  by (simp add: run_def init_world_def createContentHandler_def createContent_def insertDoc_def
      addContentGenerationJob_def queue_add_def saveDoc_def Let_def body_create_def doc_C1_def
      job_C1_def del: generatePrompt.simps)

lemma scenario_completed:
  "step \<lparr>contents = [doc_C1 None c QUEUED], queue = [job_C1], trace = []\<rparr>
        (WorkerRuns ''content-C1'' ai_ok) =
     \<lparr>contents = [doc_C1 (Some ''AI TEXT'') (if falsy c then Some ''AI TEXT'' else c) COMPLETED],
      queue = [job_C1],
      trace = [DbWrite ''content-C1'' PROCESSING, DbWrite ''content-C1'' COMPLETED,
               Publish ''job-updates'' (msg_C1 COMPLETED (Some ''AI TEXT'') None)]\<rparr>"
  by (simp add: processor_def db_updateContentJobStatus_def updateContentJobStatus_def
      updateContentJobStatus_interleaved_def findOne_def byJobId_def buildUpdateData_def
      applySet_def generateContent_def redis_publish_def Let_def ai_ok_def doc_C1_def
      job_C1_def msg_C1_def del: generatePrompt.simps)

lemma scenario_edited:
  "step \<lparr>contents = [doc_C1 g c js], queue = q, trace = t\<rparr>
        (PutContent (Some ''u1'') ''C1'' (JObj [(''content'', JStr x)])) =
     \<lparr>contents = [doc_C1 g (Some x) js], queue = q, trace = t\<rparr>"
  by (simp add: updateContentHandler_def updateContent_def byIdAndUser_def applyUpdates_def
      doc_C1_def del: generatePrompt.simps)

lemma scenario_failed:
  "step \<lparr>contents = [doc_C1 g c js], queue = [job_C1], trace = []\<rparr>
        (WorkerRuns ''content-C1'' ai_down) =
     \<lparr>contents = [doc_C1 g c FAILED], queue = [job_C1],
      trace = [DbWrite ''content-C1'' PROCESSING, DbWrite ''content-C1'' FAILED,
               Publish ''job-updates''
                 (msg_C1 FAILED None (Some ''AI content generation failed: quota exceeded''))]\<rparr>"
  by (simp add: processor_def catch_block_def db_updateContentJobStatus_def
      updateContentJobStatus_def updateContentJobStatus_interleaved_def findOne_def byJobId_def
      buildUpdateData_def applySet_def generateContent_def redis_publish_def Let_def ai_down_def
      doc_C1_def job_C1_def msg_C1_def del: generatePrompt.simps)

lemma run_two: "run w [e1, e2] = step (run w [e1]) e2"
  by (simp add: run_def)

lemma run_three: "run w [e1, e2, e3] = step (run w [e1, e2]) e3"
  by (simp add: run_def)

lemma scenario_edit_after_completion:
  "run init_world
     [PostContent (Some ''u1'') body_create ''C1'', WorkerRuns ''content-C1'' ai_ok,
      PutContent (Some ''u1'') ''C1'' (JObj [(''content'', JStr ''edited'')])] =
   \<lparr>contents = [doc_C1 (Some ''AI TEXT'') (Some ''edited'') COMPLETED], queue = [job_C1],
     trace = [DbWrite ''content-C1'' PROCESSING, DbWrite ''content-C1'' COMPLETED,
              Publish ''job-updates'' (msg_C1 COMPLETED (Some ''AI TEXT'') None)]\<rparr>"
  by (simp add: run_three run_two scenario_created scenario_edited scenario_completed
      del: step.simps)

section \<open>Job identity\<close>

text \<open>
  C6. In every state \<open>w\<close> the system reaches from the empty one: a creation request that
  is accepted answers with the job id \<open>"content-" + id\<close> of the document it created and
  has stored that value as the document's \<open>jobId\<close>; the id computed at submission is
  \<open>"content-" + contentId\<close> whatever the queue holds; every stored document has
  \<open>jobId = "content-" + id\<close>; and whatever happens afterwards, a document that is still
  there has the \<open>jobId\<close> it had.
\<close>

theorem jobId_is_content_prefix_of_id_and_stable:
  assumes "w = run init_world evs"
  shows "(\<forall>user body newId w' c jid.
            createContentHandler user body newId w = (w', Inr (202, Accepted c jid)) \<longrightarrow>
              jid = ''content-'' @ newId \<and> doc_id c = newId \<and> jobId c = Some jid \<and>
              c \<in> set (contents w'))
       \<and> (\<forall>jobData q. snd (addContentGenerationJob jobData q) = ''content-'' @ data_contentId jobData)
       \<and> (\<forall>d \<in> set (contents w). jobId d = Some (''content-'' @ doc_id d))
       \<and> (\<forall>evs'. \<forall>d \<in> set (contents w). \<forall>d' \<in> set (contents (run w evs')).
             doc_id d' = doc_id d \<longrightarrow> jobId d' = jobId d)"
proof -
  have inv: "\<And>es d. d \<in> set (contents (run init_world es)) \<Longrightarrow>
               jobId d = Some (''content-'' @ doc_id d)"
    using run_init_consistent by (auto simp: list_all_iff consistent_def)
  have created: "\<forall>user body newId w' c jid.
            createContentHandler user body newId w = (w', Inr (202, Accepted c jid)) \<longrightarrow>
              jid = ''content-'' @ newId \<and> doc_id c = newId \<and> jobId c = Some jid \<and>
              c \<in> set (contents w')"
    using createContentHandler_accepted by fastforce
  have stable: "\<forall>evs'. \<forall>d \<in> set (contents w). \<forall>d' \<in> set (contents (run w evs')).
             doc_id d' = doc_id d \<longrightarrow> jobId d' = jobId d"
  proof (intro allI ballI impI)
    fix evs' d d'
    assume d: "d \<in> set (contents w)" and d': "d' \<in> set (contents (run w evs'))"
      and same: "doc_id d' = doc_id d"
    from d' have "d' \<in> set (contents (run init_world (evs @ evs')))"
      by (simp add: assms run_append)
    then have "jobId d' = Some (''content-'' @ doc_id d')" by (rule inv)
    moreover from d have "jobId d = Some (''content-'' @ doc_id d)"
      unfolding assms by (rule inv)
    ultimately show "jobId d' = jobId d" using same by simp
  qed
  show ?thesis
    using created stable inv [of _ evs] addContentGenerationJob_id
    unfolding assms by blast
qed

lemma find_saveDoc:
  assumes "find (byIdAndUser i u) coll = Some c" and "doc_id c' = i" and "userId c' = u"
  shows "find (byIdAndUser i u) (saveDoc c' coll) = Some c'"
  using assms by (induction coll) (auto simp: saveDoc_def byIdAndUser_def split: if_splits)

theorem jobId_is_content_prefix_of_id_and_stable_witness:
  "createContentHandler (Some ''u1'') body_create ''C1'' init_world =
     (\<lparr>contents = [doc_C1 None None QUEUED], queue = [job_C1], trace = []\<rparr>,
      Inr (202, Accepted (doc_C1 None None QUEUED) ''content-C1''))
   \<and> jobId (doc_C1 None None QUEUED) = Some ''content-C1''
   \<and> jobId (doc_C1 (Some ''AI TEXT'') (Some ''edited'') COMPLETED) = jobId (doc_C1 None None QUEUED)"
proof -
  let ?create = "PostContent (Some ''u1'') body_create ''C1''"
  let ?later = "[WorkerRuns ''content-C1'' ai_ok,
                 PutContent (Some ''u1'') ''C1'' (JObj [(''content'', JStr ''edited'')])]"
  have start: "init_world = run init_world []"
    by (simp add: run_def)
  have made: "createContentHandler (Some ''u1'') body_create ''C1'' init_world =
     (\<lparr>contents = [doc_C1 None None QUEUED], queue = [job_C1], trace = []\<rparr>,
      Inr (202, Accepted (doc_C1 None None QUEUED) ''content-C1''))"
    by (simp add: init_world_def createContentHandler_def createContent_def insertDoc_def
      addContentGenerationJob_def queue_add_def saveDoc_def Let_def body_create_def doc_C1_def
      job_C1_def del: generatePrompt.simps)
  have first: "doc_C1 None None QUEUED \<in> set (contents (run init_world [?create]))"
    by (simp add: scenario_created)
  have after: "doc_C1 (Some ''AI TEXT'') (Some ''edited'') COMPLETED
                 \<in> set (contents (run (run init_world [?create]) ?later))"
    using scenario_edit_after_completion by (simp add: run_def)
  have same: "doc_id (doc_C1 (Some ''AI TEXT'') (Some ''edited'') COMPLETED) =
              doc_id (doc_C1 None None QUEUED)"
    by (simp add: doc_C1_def)
  from jobId_is_content_prefix_of_id_and_stable [OF start] made
  have "jobId (doc_C1 None None QUEUED) = Some ''content-C1''"
    by blast
  moreover from jobId_is_content_prefix_of_id_and_stable [OF refl, of "[?create]"] first after same
  have "jobId (doc_C1 (Some ''AI TEXT'') (Some ''edited'') COMPLETED) = jobId (doc_C1 None None QUEUED)"
    by blast
  ultimately show ?thesis using made by simp
qed

section \<open>Rollback\<close>

text \<open>
  C7. In every state the system reaches from the empty one, for a document owned by the
  requester: \<open>rollbackContent\<close> fails with the 400 error "No generated content available
  to rollback to" if and only if the document's \<open>generatedContent\<close> is \<open>null\<close>;
  otherwise it returns and stores the document with \<open>content = generatedContent\<close> and
  every other field, \<open>generatedContent\<close> and \<open>jobStatus\<close> among them, as it was.
\<close>

theorem rollback_fails_iff_no_generated_content:
  assumes "w = run init_world evs"
    and "findOne (byIdAndUser contentId uid) (contents w) = Some c"
  shows "(snd (rollbackContent contentId uid (contents w)) =
            Inl (AppError ''No generated content available to rollback to'' 400)
          \<longleftrightarrow> generatedContent c = None)
       \<and> (generatedContent c \<noteq> None \<longrightarrow>
            rollbackContent contentId uid (contents w) =
              (saveDoc (c\<lparr>content := generatedContent c\<rparr>) (contents w),
               Inr (c\<lparr>content := generatedContent c\<rparr>))
            \<and> findOne (byIdAndUser contentId uid)
                 (saveDoc (c\<lparr>content := generatedContent c\<rparr>) (contents w)) =
               Some (c\<lparr>content := generatedContent c\<rparr>))"
proof -
  have "list_all consistent (contents w)"
    unfolding assms(1) by (rule run_init_consistent)
  with assms(2) have "consistent c"
    by (auto simp: findOne_def dest: find_all)
  then have nonempty: "generatedContent c \<noteq> Some []"
    by (simp add: consistent_def)
  have ids: "doc_id c = contentId \<and> userId c = uid"
    using assms(2) by (auto simp: findOne_def find_Some_iff byIdAndUser_def)
  have stored: "findOne (byIdAndUser contentId uid)
                 (saveDoc (c\<lparr>content := generatedContent c\<rparr>) (contents w)) =
               Some (c\<lparr>content := generatedContent c\<rparr>)"
    using assms(2) ids unfolding findOne_def by (intro find_saveDoc) simp_all
  show ?thesis
  proof (cases "generatedContent c")
    case None
    with assms(2) show ?thesis by (simp add: rollbackContent_def)
  next
    case (Some g)
    with nonempty have "g \<noteq> []" by simp
    with Some assms(2) stored show ?thesis
      by (simp add: rollbackContent_def Let_def)
  qed
qed

lemma protected_fields_applyUpdates [simp]:
  "protected_fields (applyUpdates u d) = protected_fields d"
  by (simp add: protected_fields_def applyUpdates_def)

lemma updateContentHandler_rest:
  "queue (fst (updateContentHandler user contentId body w)) = queue w \<and>
   trace (fst (updateContentHandler user contentId body w)) = trace w"
  by (simp add: updateContentHandler_def split: option.splits sum.splits prod.splits)

theorem rollback_fails_iff_no_generated_content_witness:
  "snd (rollbackContent ''C1'' ''u1''
          (contents (run init_world [PostContent (Some ''u1'') body_create ''C1'']))) =
     Inl (AppError ''No generated content available to rollback to'' 400)
   \<and> rollbackContent ''C1'' ''u1''
        (contents (run init_world
           [PostContent (Some ''u1'') body_create ''C1'', WorkerRuns ''content-C1'' ai_ok,
            PutContent (Some ''u1'') ''C1'' (JObj [(''content'', JStr ''edited'')])])) =
     ([doc_C1 (Some ''AI TEXT'') (Some ''AI TEXT'') COMPLETED],
      Inr (doc_C1 (Some ''AI TEXT'') (Some ''AI TEXT'') COMPLETED))"
proof -
  let ?e1 = "[PostContent (Some ''u1'') body_create ''C1'']"
  let ?e3 = "[PostContent (Some ''u1'') body_create ''C1'', WorkerRuns ''content-C1'' ai_ok,
              PutContent (Some ''u1'') ''C1'' (JObj [(''content'', JStr ''edited'')])]"
  have f1: "findOne (byIdAndUser ''C1'' ''u1'') (contents (run init_world ?e1)) =
              Some (doc_C1 None None QUEUED)"
    by (simp add: scenario_created findOne_def byIdAndUser_def doc_C1_def)
  have f3: "findOne (byIdAndUser ''C1'' ''u1'') (contents (run init_world ?e3)) =
              Some (doc_C1 (Some ''AI TEXT'') (Some ''edited'') COMPLETED)"
    by (simp add: scenario_edit_after_completion findOne_def byIdAndUser_def doc_C1_def)
  have none: "generatedContent (doc_C1 None None QUEUED) = None"
    by (simp add: doc_C1_def)
  have some: "generatedContent (doc_C1 (Some ''AI TEXT'') (Some ''edited'') COMPLETED) \<noteq> None"
    by (simp add: doc_C1_def)
  from rollback_fails_iff_no_generated_content [OF refl f1] none
  have a: "snd (rollbackContent ''C1'' ''u1'' (contents (run init_world ?e1))) =
     Inl (AppError ''No generated content available to rollback to'' 400)"
    by blast
  from rollback_fails_iff_no_generated_content [OF refl f3] some
  have "rollbackContent ''C1'' ''u1'' (contents (run init_world ?e3)) =
          (saveDoc (doc_C1 (Some ''AI TEXT'') (Some ''edited'') COMPLETED
                      \<lparr>content := generatedContent (doc_C1 (Some ''AI TEXT'') (Some ''edited'') COMPLETED)\<rparr>)
             (contents (run init_world ?e3)),
           Inr (doc_C1 (Some ''AI TEXT'') (Some ''edited'') COMPLETED
                  \<lparr>content := generatedContent (doc_C1 (Some ''AI TEXT'') (Some ''edited'') COMPLETED)\<rparr>))"
    by blast
  then have b: "rollbackContent ''C1'' ''u1'' (contents (run init_world ?e3)) =
     ([doc_C1 (Some ''AI TEXT'') (Some ''AI TEXT'') COMPLETED],
      Inr (doc_C1 (Some ''AI TEXT'') (Some ''AI TEXT'') COMPLETED))"
    by (simp add: scenario_edit_after_completion saveDoc_def doc_C1_def)
  from a b show ?thesis by simp
qed

section \<open>User updates\<close>

text \<open>
  C8. For every requester, content id and request body, and whether the update handler
  answers or throws: every document keeps its id, owner, content type, \<open>prompt\<close>,
  \<open>generatedContent\<close>, \<open>jobId\<close> and \<open>jobStatus\<close>, so only \<open>topic\<close> and \<open>content\<close>
  can change; the queue and the worker's effects are untouched.
\<close>

theorem user_update_changes_only_topic_and_content:
  "map protected_fields (contents (fst (updateContentHandler user contentId body w))) =
     map protected_fields (contents w)
   \<and> queue (fst (updateContentHandler user contentId body w)) = queue w
   \<and> trace (fst (updateContentHandler user contentId body w)) = trace w"
  using updateContentHandler_contents [of user contentId body w]
    updateContentHandler_rest [of user contentId body w]
  by (auto simp: findOneAndUpdate_frame)









theorem user_update_changes_only_topic_and_content_witness:
  "map protected_fields (contents (fst (updateContentHandler (Some ''u1'') ''C1'' body_overreach world_completed))) =
     [protected_fields (doc_C1 (Some ''AI TEXT'') (Some ''AI TEXT'') COMPLETED)]
   \<and> map topic (contents (fst (updateContentHandler (Some ''u1'') ''C1'' body_overreach world_completed))) =
     [''T2'']"
proof -
  have "map topic (contents (fst (updateContentHandler (Some ''u1'') ''C1'' body_overreach world_completed))) =
     [''T2'']"
    by (simp add: updateContentHandler_def updateContent_def byIdAndUser_def applyUpdates_def
      doc_C1_def world_completed_def body_overreach_def del: generatePrompt.simps)
  with user_update_changes_only_topic_and_content [of "Some ''u1''" "''C1''" body_overreach world_completed]
  show ?thesis by (simp add: world_completed_def)
qed

section \<open>Absent and foreign records\<close>



section \<open>The worker's effects\<close>

lemma applySet_status_only:
  "applySet (buildUpdateData e js None) = (\<lambda>d. d\<lparr>jobStatus := js\<rparr>)"
  by (rule ext) (simp add: applySet_def buildUpdateData_def)

lemma updateContentJobStatus_status_only:
  "updateContentJobStatus jid js None coll =
     findOneAndUpdate (byJobId jid) (\<lambda>d. d\<lparr>jobStatus := js\<rparr>) coll"
  by (simp add: updateContentJobStatus_def updateContentJobStatus_interleaved_def
      applySet_status_only)

lemma updateContentJobStatus_found:
  "snd (updateContentJobStatus jid js generated coll) =
     map_option (applySet (buildUpdateData (find (byJobId jid) coll) js generated))
       (find (byJobId jid) coll)"
  by (simp add: updateContentJobStatus_def updateContentJobStatus_interleaved_def
      findOneAndUpdate_result findOne_def)

lemma db_updateContentJobStatus_trace:
  "trace (fst (db_updateContentJobStatus jid js generated w)) = trace w @ [DbWrite jid js]"
  by (simp add: db_updateContentJobStatus_def split_beta)

lemma db_updateContentJobStatus_queue:
  "queue (fst (db_updateContentJobStatus jid js generated w)) = queue w"
  by (simp add: db_updateContentJobStatus_def split_beta)

lemma db_updateContentJobStatus_snd:
  "snd (db_updateContentJobStatus jid js generated w) =
     snd (updateContentJobStatus jid js generated (contents w))"
  by (simp add: db_updateContentJobStatus_def split_beta)

lemma catch_block_effects:
  "snd (catch_block job err w) = Inl err
   \<and> trace (fst (catch_block job err w)) =
       trace w @ [DbWrite (job_id job) FAILED,
                  Publish ''job-updates''
                    \<lparr>msg_jobId = job_id job, msg_contentId = data_contentId (job_data job),
                     msg_status = FAILED, msg_generatedContent = None,
                     msg_error = Some (message err)\<rparr>]
   \<and> queue (fst (catch_block job err w)) = queue w
   \<and> contents (fst (catch_block job err w)) =
       fst (findOneAndUpdate (byJobId (job_id job)) (\<lambda>d. d\<lparr>jobStatus := FAILED\<rparr>) (contents w))"
  by (simp add: catch_block_def Let_def redis_publish_def db_updateContentJobStatus_trace
      db_updateContentJobStatus_queue db_updateContentJobStatus_contents
      updateContentJobStatus_status_only)

lemma byJobId_status [simp]: "byJobId jid (d\<lparr>jobStatus := js\<rparr>) = byJobId jid d"
  by (simp add: byJobId_def)

text \<open>
  C3. Whenever the generation call of a processor run fails with an error, for every job
  (so on every attempt, whatever \<open>attemptsMade\<close> is) and every state: the processor
  re-throws that error to the queue; it writes \<open>processing\<close> and then \<open>failed\<close> to the
  content store and then publishes \<open>{jobId, contentId, status: failed, error}\<close> on
  \<open>job-updates\<close>, the error being the message of the error thrown; the document with the
  job's id, if there is one, ends with \<open>jobStatus = failed\<close>, and no other field of any
  document changes.
\<close>

theorem worker_failure_marks_failed_publishes_and_rethrows:
  assumes "generateContent env (data_contentType (job_data job)) (data_topic (job_data job)) = Inl err"
  shows "snd (processor env job w) = Inl err
       \<and> trace (fst (processor env job w)) =
           trace w @ [DbWrite (job_id job) PROCESSING, DbWrite (job_id job) FAILED,
                      Publish ''job-updates''
                        \<lparr>msg_jobId = job_id job, msg_contentId = data_contentId (job_data job),
                         msg_status = FAILED, msg_generatedContent = None,
                         msg_error = Some (message err)\<rparr>]
       \<and> getContentByJobId (job_id job) (contents (fst (processor env job w))) =
           map_option (\<lambda>c. c\<lparr>jobStatus := FAILED\<rparr>) (getContentByJobId (job_id job) (contents w))
       \<and> map (\<lambda>d. d\<lparr>jobStatus := FAILED\<rparr>) (contents (fst (processor env job w))) =
           map (\<lambda>d. d\<lparr>jobStatus := FAILED\<rparr>) (contents w)
       \<and> queue (fst (processor env job w)) = queue w"
proof -
  let ?w1 = "fst (db_updateContentJobStatus (job_id job) PROCESSING None w)"
  have p: "processor env job w = catch_block job err ?w1"
    using assms by (simp add: processor_def Let_def)
  have c1: "contents ?w1 =
      fst (findOneAndUpdate (byJobId (job_id job)) (\<lambda>d. d\<lparr>jobStatus := PROCESSING\<rparr>) (contents w))"
    by (simp add: db_updateContentJobStatus_contents updateContentJobStatus_status_only)
  have found: "getContentByJobId (job_id job) (contents (fst (processor env job w))) =
           map_option (\<lambda>c. c\<lparr>jobStatus := FAILED\<rparr>) (getContentByJobId (job_id job) (contents w))"
    by (simp add: p catch_block_effects c1 getContentByJobId_def findOne_def
        findOneAndUpdate_find_same option.map_comp comp_def)
  have frame: "map (\<lambda>d. d\<lparr>jobStatus := FAILED\<rparr>) (contents (fst (processor env job w))) =
           map (\<lambda>d. d\<lparr>jobStatus := FAILED\<rparr>) (contents w)"
    by (simp add: p catch_block_effects c1 findOneAndUpdate_frame)
  show ?thesis
    using found frame
    by (simp add: p catch_block_effects db_updateContentJobStatus_trace
        db_updateContentJobStatus_queue)
qed

lemma processor_trace:
  "trace (fst (processor env job w)) = trace w @
     (case generateContent env (data_contentType (job_data job)) (data_topic (job_data job)) of
        Inl err \<Rightarrow>
          [DbWrite (job_id job) PROCESSING, DbWrite (job_id job) FAILED,
           Publish ''job-updates''
             \<lparr>msg_jobId = job_id job, msg_contentId = data_contentId (job_data job),
              msg_status = FAILED, msg_generatedContent = None, msg_error = Some (message err)\<rparr>]
      | Inr generated \<Rightarrow>
          (case getContentByJobId (job_id job) (contents w) of
             None \<Rightarrow>
               [DbWrite (job_id job) PROCESSING, DbWrite (job_id job) COMPLETED,
                DbWrite (job_id job) FAILED,
                Publish ''job-updates''
                  \<lparr>msg_jobId = job_id job, msg_contentId = data_contentId (job_data job),
                   msg_status = FAILED, msg_generatedContent = None,
                   msg_error = Some (''Content not found for job ID: '' @ job_id job)\<rparr>]
           | Some c \<Rightarrow>
               [DbWrite (job_id job) PROCESSING, DbWrite (job_id job) COMPLETED,
                Publish ''job-updates''
                  \<lparr>msg_jobId = job_id job, msg_contentId = doc_id c,
                   msg_status = COMPLETED, msg_generatedContent = Some generated,
                   msg_error = None\<rparr>]))"
proof -
  let ?w1 = "fst (db_updateContentJobStatus (job_id job) PROCESSING None w)"
  have find1: "find (byJobId (job_id job)) (contents ?w1) =
                 map_option (\<lambda>d. d\<lparr>jobStatus := PROCESSING\<rparr>) (find (byJobId (job_id job)) (contents w))"
    by (simp add: db_updateContentJobStatus_contents updateContentJobStatus_status_only
        findOneAndUpdate_find_same)
  show ?thesis
  proof (cases "generateContent env (data_contentType (job_data job)) (data_topic (job_data job))")
    case (Inl err)
    then show ?thesis
      by (simp add: processor_def Let_def catch_block_effects db_updateContentJobStatus_trace)
  next
    case (Inr g)
    let ?r = "db_updateContentJobStatus (job_id job) COMPLETED (Some g) ?w1"
    have tr: "trace (fst ?r) =
                trace w @ [DbWrite (job_id job) PROCESSING, DbWrite (job_id job) COMPLETED]"
      by (simp add: db_updateContentJobStatus_trace)
    show ?thesis
    proof (cases "find (byJobId (job_id job)) (contents w)")
      case None
      then have "snd ?r = None"
        by (simp add: db_updateContentJobStatus_snd updateContentJobStatus_found find1)
      then show ?thesis
        using Inr None tr
        by (simp add: processor_def Let_def split_beta catch_block_effects
            getContentByJobId_def findOne_def)
    next
      case (Some c)
      then obtain c' where c': "snd ?r = Some c'" and id: "doc_id c' = doc_id c"
        by (auto simp: db_updateContentJobStatus_snd updateContentJobStatus_found find1
            applySet_def)
      then show ?thesis
        using Inr Some tr
        by (simp add: processor_def Let_def split_beta redis_publish_def
            getContentByJobId_def findOne_def)
    qed
  qed
qed

theorem worker_failure_marks_failed_publishes_and_rethrows_witness:
  "generateContent ai_down (data_contentType (job_data job_C1)) (data_topic (job_data job_C1)) =
     Inl (AppError ''AI content generation failed: quota exceeded'' 500)
   \<and> snd (processor ai_down job_C1 world_created) =
       Inl (AppError ''AI content generation failed: quota exceeded'' 500)
   \<and> trace (fst (processor ai_down job_C1 world_created)) =
       [DbWrite ''content-C1'' PROCESSING, DbWrite ''content-C1'' FAILED,
        Publish ''job-updates''
          (msg_C1 FAILED None (Some ''AI content generation failed: quota exceeded''))]
   \<and> getContentByJobId ''content-C1'' (contents (fst (processor ai_down job_C1 world_created))) =
       Some (doc_C1 None None FAILED)"
proof -
  have h: "generateContent ai_down (data_contentType (job_data job_C1)) (data_topic (job_data job_C1)) =
     Inl (AppError ''AI content generation failed: quota exceeded'' 500)"
    by (simp add: generateContent_def ai_down_def job_C1_def del: generatePrompt.simps)
  have before: "getContentByJobId ''content-C1'' (contents world_created) = Some (doc_C1 None None QUEUED)"
    by (simp add: getContentByJobId_def findOne_def byJobId_def world_created_def doc_C1_def)
  from worker_failure_marks_failed_publishes_and_rethrows [OF h, of world_created] h before
  show ?thesis
    by (simp add: job_C1_def msg_C1_def world_created_def doc_C1_def)
qed

lemma completed_run_trace:
  "trace (fst (processor ai_ok job_C1 world_created)) =
     [DbWrite ''content-C1'' PROCESSING, DbWrite ''content-C1'' COMPLETED,
      Publish ''job-updates'' (msg_C1 COMPLETED (Some ''AI TEXT'') None)]"
  by (simp add: processor_trace generateContent_def getContentByJobId_def findOne_def byJobId_def
      ai_ok_def world_created_def job_C1_def doc_C1_def msg_C1_def del: generatePrompt.simps)

lemma updateContentJobStatus_find:
  "find (byJobId jid) (fst (updateContentJobStatus jid js generated coll)) =
     map_option (applySet (buildUpdateData (find (byJobId jid) coll) js generated))
       (find (byJobId jid) coll)"
  by (simp add: updateContentJobStatus_def updateContentJobStatus_interleaved_def
      findOneAndUpdate_find_same findOne_def)

lemma db_updateContentJobStatus_find:
  "find (byJobId jid) (contents (fst (db_updateContentJobStatus jid js generated w))) =
     map_option (applySet (buildUpdateData (find (byJobId jid) (contents w)) js generated))
       (find (byJobId jid) (contents w))"
  by (simp add: db_updateContentJobStatus_contents updateContentJobStatus_find)

lemma jobStatus_applySet [simp]: "jobStatus (applySet (buildUpdateData e js generated) d) = js"
  by (simp add: applySet_def buildUpdateData_def split: option.splits)

lemma generatedContent_applySet [simp]:
  "generatedContent (applySet (buildUpdateData e js (Some g)) d) = Some g"
  by (simp add: applySet_def buildUpdateData_def)

lemma processor_publishes_on_written_store:
  "\<exists>m wpre earlier.
      fst (processor env job w) = redis_publish ''job-updates'' m wpre
    \<and> msg_jobId m = job_id job
    \<and> (msg_status m = COMPLETED \<or> msg_status m = FAILED)
    \<and> trace wpre = trace w @ earlier @ [DbWrite (job_id job) (msg_status m)]
    \<and> (earlier = [DbWrite (job_id job) PROCESSING] \<or>
        earlier = [DbWrite (job_id job) PROCESSING, DbWrite (job_id job) COMPLETED])
    \<and> map_option jobStatus (getContentByJobId (job_id job) (contents wpre)) =
        map_option (\<lambda>c. msg_status m) (getContentByJobId (job_id job) (contents w))
    \<and> (msg_status m = COMPLETED \<longrightarrow>
         getContentByJobId (job_id job) (contents w) \<noteq> None \<and>
         map_option generatedContent (getContentByJobId (job_id job) (contents wpre)) =
           Some (msg_generatedContent m) \<and>
         map_option doc_id (getContentByJobId (job_id job) (contents wpre)) =
           Some (msg_contentId m))"
proof -
  let ?jid = "job_id job"
  let ?w1 = "fst (db_updateContentJobStatus ?jid PROCESSING None w)"
  let ?gen = "generateContent env (data_contentType (job_data job)) (data_topic (job_data job))"
  show ?thesis
  proof (cases ?gen)
    case (Inl err)
    let ?wpre = "fst (db_updateContentJobStatus ?jid FAILED None ?w1)"
    let ?m = "\<lparr>msg_jobId = ?jid, msg_contentId = data_contentId (job_data job),
               msg_status = FAILED, msg_generatedContent = None,
               msg_error = Some (message err)\<rparr>"
    have "fst (processor env job w) = redis_publish ''job-updates'' ?m ?wpre"
      using Inl by (simp add: processor_def catch_block_def Let_def)
    moreover have "trace ?wpre = trace w @ [DbWrite ?jid PROCESSING] @ [DbWrite ?jid (msg_status ?m)]"
      by (simp add: db_updateContentJobStatus_trace)
    moreover have "map_option jobStatus (getContentByJobId ?jid (contents ?wpre)) =
        map_option (\<lambda>c. msg_status ?m) (getContentByJobId ?jid (contents w))"
      by (simp add: getContentByJobId_def findOne_def db_updateContentJobStatus_find
          option.map_comp comp_def)
    ultimately show ?thesis
      by (intro exI [of _ ?m] exI [of _ ?wpre] exI [of _ "[DbWrite ?jid PROCESSING]"]) simp
  next
    case (Inr g)
    let ?r = "db_updateContentJobStatus ?jid COMPLETED (Some g) ?w1"
    let ?w2 = "fst ?r"
    have tr2: "trace ?w2 = trace w @ [DbWrite ?jid PROCESSING, DbWrite ?jid COMPLETED]"
      by (simp add: db_updateContentJobStatus_trace)
    have snd_r: "snd ?r = find (byJobId ?jid) (contents ?w2)"
      by (simp add: db_updateContentJobStatus_snd updateContentJobStatus_found
          db_updateContentJobStatus_find)
    show ?thesis
    proof (cases "find (byJobId ?jid) (contents w)")
      case None
      then have none: "snd ?r = None"
        by (simp add: snd_r db_updateContentJobStatus_find)
      let ?wpre = "fst (db_updateContentJobStatus ?jid FAILED None ?w2)"
      let ?m = "\<lparr>msg_jobId = ?jid, msg_contentId = data_contentId (job_data job),
                 msg_status = FAILED, msg_generatedContent = None,
                 msg_error = Some (''Content not found for job ID: '' @ ?jid)\<rparr>"
      have "fst (processor env job w) = redis_publish ''job-updates'' ?m ?wpre"
        using Inr none by (simp add: processor_def catch_block_def Let_def split_beta)
      moreover have "trace ?wpre =
          trace w @ [DbWrite ?jid PROCESSING, DbWrite ?jid COMPLETED] @ [DbWrite ?jid (msg_status ?m)]"
        by (simp add: db_updateContentJobStatus_trace)
      moreover have "map_option jobStatus (getContentByJobId ?jid (contents ?wpre)) =
          map_option (\<lambda>c. msg_status ?m) (getContentByJobId ?jid (contents w))"
        by (simp add: getContentByJobId_def findOne_def db_updateContentJobStatus_find
            option.map_comp comp_def)
      ultimately show ?thesis
        by (intro exI [of _ ?m] exI [of _ ?wpre]
            exI [of _ "[DbWrite ?jid PROCESSING, DbWrite ?jid COMPLETED]"]) simp
    next
      case (Some c)
      then obtain c' where c': "snd ?r = Some c'"
        by (simp add: snd_r db_updateContentJobStatus_find)
      let ?m = "\<lparr>msg_jobId = ?jid, msg_contentId = doc_id c', msg_status = COMPLETED,
                 msg_generatedContent = Some g, msg_error = None\<rparr>"
      have "fst (processor env job w) = redis_publish ''job-updates'' ?m ?w2"
        using Inr c' by (simp add: processor_def Let_def split_beta)
      moreover have "trace ?w2 = trace w @ [DbWrite ?jid PROCESSING] @ [DbWrite ?jid (msg_status ?m)]"
        using tr2 by simp
      moreover have "map_option jobStatus (getContentByJobId ?jid (contents ?w2)) =
          map_option (\<lambda>c. msg_status ?m) (getContentByJobId ?jid (contents w))"
        by (simp add: getContentByJobId_def findOne_def db_updateContentJobStatus_find
            option.map_comp comp_def)
      moreover have "map_option generatedContent (getContentByJobId ?jid (contents ?w2)) =
           Some (msg_generatedContent ?m)"
        using Some
        by (simp add: getContentByJobId_def findOne_def db_updateContentJobStatus_find)
      moreover have "getContentByJobId ?jid (contents w) \<noteq> None"
        using Some by (simp add: getContentByJobId_def findOne_def)
      moreover have "map_option doc_id (getContentByJobId ?jid (contents ?w2)) =
           Some (msg_contentId ?m)"
        using c' by (simp add: getContentByJobId_def findOne_def snd_r)
      ultimately show ?thesis
        by (intro exI [of _ ?m] exI [of _ ?w2] exI [of _ "[DbWrite ?jid PROCESSING]"]) simp
    qed
  qed
qed

lemma publish_follows_its_write:
  "\<forall>i < length (drop (length (trace w)) (trace (fst (processor env job w)))).
     \<forall>channel m. drop (length (trace w)) (trace (fst (processor env job w))) ! i = Publish channel m \<longrightarrow>
       msg_jobId m = job_id job \<and> (msg_status m = COMPLETED \<or> msg_status m = FAILED) \<and>
       (\<exists>j < i. drop (length (trace w)) (trace (fst (processor env job w))) ! j =
                  DbWrite (msg_jobId m) (msg_status m))"
proof (intro allI impI)
  fix i channel m
  let ?new = "drop (length (trace w)) (trace (fst (processor env job w)))"
  assume i: "i < length ?new" and pub: "?new ! i = Publish channel m"
  let ?jid = "job_id job"
  let ?gen = "generateContent env (data_contentType (job_data job)) (data_topic (job_data job))"
  have new: "?new = (case ?gen of
        Inl err \<Rightarrow>
          [DbWrite ?jid PROCESSING, DbWrite ?jid FAILED,
           Publish ''job-updates''
             \<lparr>msg_jobId = ?jid, msg_contentId = data_contentId (job_data job),
              msg_status = FAILED, msg_generatedContent = None, msg_error = Some (message err)\<rparr>]
      | Inr generated \<Rightarrow>
          (case getContentByJobId ?jid (contents w) of
             None \<Rightarrow>
               [DbWrite ?jid PROCESSING, DbWrite ?jid COMPLETED, DbWrite ?jid FAILED,
                Publish ''job-updates''
                  \<lparr>msg_jobId = ?jid, msg_contentId = data_contentId (job_data job),
                   msg_status = FAILED, msg_generatedContent = None,
                   msg_error = Some (''Content not found for job ID: '' @ ?jid)\<rparr>]
           | Some c \<Rightarrow>
               [DbWrite ?jid PROCESSING, DbWrite ?jid COMPLETED,
                Publish ''job-updates''
                  \<lparr>msg_jobId = ?jid, msg_contentId = doc_id c,
                   msg_status = COMPLETED, msg_generatedContent = Some generated,
                   msg_error = None\<rparr>]))"
    by (simp add: processor_trace)
  have "(\<exists>msg. ?new = [DbWrite ?jid PROCESSING, DbWrite ?jid FAILED, Publish ''job-updates'' msg]
            \<and> msg_jobId msg = ?jid \<and> msg_status msg = FAILED)
      \<or> (\<exists>msg. ?new = [DbWrite ?jid PROCESSING, DbWrite ?jid COMPLETED, DbWrite ?jid FAILED,
                           Publish ''job-updates'' msg]
            \<and> msg_jobId msg = ?jid \<and> msg_status msg = FAILED)
      \<or> (\<exists>msg. ?new = [DbWrite ?jid PROCESSING, DbWrite ?jid COMPLETED, Publish ''job-updates'' msg]
            \<and> msg_jobId msg = ?jid \<and> msg_status msg = COMPLETED)"
  proof (cases ?gen)
    case (Inl err)
    with new show ?thesis by simp
  next
    case (Inr g)
    with new show ?thesis
      by (cases "getContentByJobId ?jid (contents w)") simp_all
  qed
  then consider
    (collaborator_failed) msg where
      "?new = [DbWrite ?jid PROCESSING, DbWrite ?jid FAILED, Publish ''job-updates'' msg]"
      "msg_jobId msg = ?jid" "msg_status msg = FAILED"
  | (record_missing) msg where
      "?new = [DbWrite ?jid PROCESSING, DbWrite ?jid COMPLETED, DbWrite ?jid FAILED,
               Publish ''job-updates'' msg]"
      "msg_jobId msg = ?jid" "msg_status msg = FAILED"
  | (completed) msg where
      "?new = [DbWrite ?jid PROCESSING, DbWrite ?jid COMPLETED, Publish ''job-updates'' msg]"
      "msg_jobId msg = ?jid" "msg_status msg = COMPLETED"
    by blast
  then show "msg_jobId m = ?jid \<and> (msg_status m = COMPLETED \<or> msg_status m = FAILED) \<and>
       (\<exists>j < i. ?new ! j = DbWrite (msg_jobId m) (msg_status m))"
  proof cases
    case collaborator_failed
    with i pub have "i = 2 \<and> m = msg"
      by (auto simp: nth_Cons' less_Suc_eq numeral_2_eq_2 numeral_3_eq_3 split: if_splits)
    with collaborator_failed show ?thesis
      by (auto intro!: exI [of _ 1])
  next
    case record_missing
    with i pub have "i = 3 \<and> m = msg"
      by (auto simp: nth_Cons' less_Suc_eq numeral_2_eq_2 numeral_3_eq_3 split: if_splits)
    with record_missing show ?thesis
      by (auto intro!: exI [of _ 2])
  next
    case completed
    with i pub have "i = 2 \<and> m = msg"
      by (auto simp: nth_Cons' less_Suc_eq numeral_2_eq_2 numeral_3_eq_3 split: if_splits)
    with completed show ?thesis
      by (auto intro!: exI [of _ 1])
  qed
qed

text \<open>
  C4. Every run of the processor ends in one terminal transition, \<open>completed\<close> or
  \<open>failed\<close>, and publishes one message for it, as its last step. The state the publish
  is made on is the state after the store write of that transition: the write of the
  published status for this job id is the effect right before the publish, only store
  writes come before it, and in the store of that state the document of the job id (there
  is one exactly when there was one before the run) has the published status as its
  \<open>jobStatus\<close> and, for \<open>completed\<close>, the published text as its \<open>generatedContent\<close>
  and the published content id as its id. Among the effects of the run, every publish
  comes after the store write of its job id and status.
\<close>

theorem store_write_precedes_publish:
  "(\<exists>m wpre earlier.
      fst (processor env job w) = redis_publish ''job-updates'' m wpre
    \<and> msg_jobId m = job_id job
    \<and> (msg_status m = COMPLETED \<or> msg_status m = FAILED)
    \<and> trace wpre = trace w @ earlier @ [DbWrite (job_id job) (msg_status m)]
    \<and> (earlier = [DbWrite (job_id job) PROCESSING] \<or>
        earlier = [DbWrite (job_id job) PROCESSING, DbWrite (job_id job) COMPLETED])
    \<and> map_option jobStatus (getContentByJobId (job_id job) (contents wpre)) =
        map_option (\<lambda>c. msg_status m) (getContentByJobId (job_id job) (contents w))
    \<and> (msg_status m = COMPLETED \<longrightarrow>
         getContentByJobId (job_id job) (contents w) \<noteq> None \<and>
         map_option generatedContent (getContentByJobId (job_id job) (contents wpre)) =
           Some (msg_generatedContent m) \<and>
         map_option doc_id (getContentByJobId (job_id job) (contents wpre)) =
           Some (msg_contentId m)))
   \<and> (\<forall>i < length (drop (length (trace w)) (trace (fst (processor env job w)))).
        \<forall>channel m. drop (length (trace w)) (trace (fst (processor env job w))) ! i = Publish channel m \<longrightarrow>
          msg_jobId m = job_id job \<and> (msg_status m = COMPLETED \<or> msg_status m = FAILED) \<and>
          (\<exists>j < i. drop (length (trace w)) (trace (fst (processor env job w))) ! j =
                     DbWrite (msg_jobId m) (msg_status m)))"
  using processor_publishes_on_written_store [of env job w] publish_follows_its_write [of w env job]
  by blast

theorem store_write_precedes_publish_witness:
  "drop (length (trace world_created)) (trace (fst (processor ai_ok job_C1 world_created))) ! 2 =
     Publish ''job-updates'' (msg_C1 COMPLETED (Some ''AI TEXT'') None)
   \<and> (\<exists>j < 2. drop (length (trace world_created))
                  (trace (fst (processor ai_ok job_C1 world_created))) ! j =
                DbWrite ''content-C1'' COMPLETED)
   \<and> map_option jobStatus
        (getContentByJobId ''content-C1'' (contents (fst (processor ai_ok job_C1 world_created)))) =
       Some COMPLETED
   \<and> map_option generatedContent
        (getContentByJobId ''content-C1'' (contents (fst (processor ai_ok job_C1 world_created)))) =
       Some (Some ''AI TEXT'')"
proof -
  let ?final = "fst (processor ai_ok job_C1 world_created)"
  let ?new = "drop (length (trace world_created)) (trace ?final)"
  let ?msg = "msg_C1 COMPLETED (Some ''AI TEXT'') None"
  have full: "trace ?final = [DbWrite ''content-C1'' PROCESSING, DbWrite ''content-C1'' COMPLETED,
      Publish ''job-updates'' ?msg]"
    by (rule completed_run_trace)
  have new: "?new = [DbWrite ''content-C1'' PROCESSING, DbWrite ''content-C1'' COMPLETED,
      Publish ''job-updates'' ?msg]"
    by (simp only: completed_run_trace) (simp add: world_created_def)
  then have len: "2 < length ?new" and pub: "?new ! 2 = Publish ''job-updates'' ?msg"
    by simp_all
  have before: "getContentByJobId ''content-C1'' (contents world_created) =
                  Some (doc_C1 None None QUEUED)"
    by (simp add: getContentByJobId_def findOne_def byJobId_def world_created_def doc_C1_def)
  have jid: "job_id job_C1 = ''content-C1''"
    by (simp add: job_C1_def)
  note main = store_write_precedes_publish [of ai_ok job_C1 world_created]
  from main len pub
  have ordered: "\<exists>j < 2. ?new ! j = DbWrite (msg_jobId ?msg) (msg_status ?msg)"
    by blast
  from main obtain m wpre where
    final: "?final = redis_publish ''job-updates'' m wpre"
    and status: "map_option jobStatus (getContentByJobId (job_id job_C1) (contents wpre)) =
        map_option (\<lambda>c. msg_status m) (getContentByJobId (job_id job_C1) (contents world_created))"
    and published_text: "msg_status m = COMPLETED \<longrightarrow>
         map_option generatedContent (getContentByJobId (job_id job_C1) (contents wpre)) =
           Some (msg_generatedContent m)"
    by blast
  from final full have "trace wpre @ [Publish ''job-updates'' m] =
      [DbWrite ''content-C1'' PROCESSING, DbWrite ''content-C1'' COMPLETED,
       Publish ''job-updates'' ?msg]"
    by (simp add: redis_publish_def)
  then have m: "m = ?msg"
    by (cases "trace wpre" rule: rev_cases) auto
  have same: "contents ?final = contents wpre"
    by (subst final) (simp add: redis_publish_def)
  from status published_text show ?thesis
    using pub ordered
    by (simp add: same m jid before msg_C1_def)
qed


section \<open>Polling the job status\<close>

text \<open>
  C2, as the claim states it, fails: in the state where the queue no longer holds the job
  while the document exists, is owned by the requester and is \<open>completed\<close>, the status
  handler answers 404 "Job not found".
\<close>

theorem status_poll_of_pruned_job_counterexample:
  "getJobStatus ''content-C1'' (queue world_pruned) = None
   \<and> getContentByJobId ''content-C1'' (contents world_pruned) =
       Some (doc_C1 (Some ''AI TEXT'') (Some ''AI TEXT'') COMPLETED)
   \<and> userId (doc_C1 (Some ''AI TEXT'') (Some ''AI TEXT'') COMPLETED) = ''u1''
   \<and> jobStatus (doc_C1 (Some ''AI TEXT'') (Some ''AI TEXT'') COMPLETED) = COMPLETED
   \<and> getJobStatusHandler (Some ''u1'') ''content-C1'' world_pruned =
       Inr (404, Failure ''Job not found'')"
  by (simp add: getJobStatusHandler_def getJobStatus_def getContentByJobId_def findOne_def
      byJobId_def world_pruned_def doc_C1_def)

text \<open>
  C2, amended. The status handler asks the queue first. When the queue has no job of
  that id it answers 404 "Job not found", whatever the content store holds. When the
  queue has the job but no document has that job id, or the document belongs to another
  user, it answers 404 "Content not found or access denied". When the queue has the job
  and the document of that job id exists and is owned by the requester, it answers 200
  with the queue's state, progress and failure reason and the document's id,
  \<open>jobStatus\<close>, \<open>generatedContent\<close> and \<open>content\<close>. It returns data in that last case
  only: every answer that is not a failure message is that 200 answer, and the handler
  never throws.
\<close>

theorem status_poll_needs_the_queue_record:
  "(getJobStatus jid (queue w) = None \<longrightarrow>
      getJobStatusHandler (Some uid) jid w = Inr (404, Failure ''Job not found''))
   \<and> (\<forall>js. getJobStatus jid (queue w) = Some js \<and>
            (getContentByJobId jid (contents w) = None \<or>
             (\<exists>c. getContentByJobId jid (contents w) = Some c \<and> userId c \<noteq> uid)) \<longrightarrow>
        getJobStatusHandler (Some uid) jid w =
          Inr (404, Failure ''Content not found or access denied''))
   \<and> (\<forall>js c. getJobStatus jid (queue w) = Some js \<and>
             getContentByJobId jid (contents w) = Some c \<and> userId c = uid \<longrightarrow>
        getJobStatusHandler (Some uid) jid w =
          Inr (200, JobStatusData jid
                 \<lparr>view_state = info_state js, view_progress = info_progress js,
                  view_failedReason = info_failedReason js\<rparr>
                 \<lparr>view_id = doc_id c, view_jobStatus = jobStatus c,
                  view_generatedContent = generatedContent c, view_content = content c\<rparr>))
   \<and> (\<forall>code p. getJobStatusHandler (Some uid) jid w = Inr (code, p) \<and> (\<forall>m. p \<noteq> Failure m) \<longrightarrow>
        (\<exists>js c. getJobStatus jid (queue w) = Some js \<and>
                getContentByJobId jid (contents w) = Some c \<and> userId c = uid \<and> code = 200 \<and>
                p = JobStatusData jid
                      \<lparr>view_state = info_state js, view_progress = info_progress js,
                       view_failedReason = info_failedReason js\<rparr>
                      \<lparr>view_id = doc_id c, view_jobStatus = jobStatus c,
                       view_generatedContent = generatedContent c, view_content = content c\<rparr>))
   \<and> (\<forall>e. getJobStatusHandler (Some uid) jid w \<noteq> Inl e)"
  by (auto simp: getJobStatusHandler_def split: option.splits if_splits)

theorem status_poll_needs_the_queue_record_witness:
  "getJobStatus ''content-C1'' (queue world_pruned) = None
   \<and> getJobStatusHandler (Some ''u1'') ''content-C1'' world_pruned =
       Inr (404, Failure ''Job not found'')
   \<and> getJobStatusHandler (Some ''u2'') ''content-C1'' world_completed =
       Inr (404, Failure ''Content not found or access denied'')
   \<and> getJobStatusHandler (Some ''u1'') ''content-C1'' world_completed =
       Inr (200, JobStatusData ''content-C1''
              \<lparr>view_state = Delayed, view_progress = 0, view_failedReason = None\<rparr>
              \<lparr>view_id = ''C1'', view_jobStatus = COMPLETED,
               view_generatedContent = Some ''AI TEXT'', view_content = Some ''AI TEXT''\<rparr>)"
proof -
  let ?info = "\<lparr>info_id = ''content-C1'', info_state = Delayed, info_progress = 0,
                 info_returnValue = None, info_failedReason = None, info_data = job_data job_C1\<rparr>"
  let ?doc = "doc_C1 (Some ''AI TEXT'') (Some ''AI TEXT'') COMPLETED"
  have q0: "getJobStatus ''content-C1'' (queue world_pruned) = None"
    by (simp add: getJobStatus_def world_pruned_def)
  have q1: "getJobStatus ''content-C1'' (queue world_completed) = Some ?info"
    by (simp add: getJobStatus_def world_completed_def job_C1_def)
  have c1: "getContentByJobId ''content-C1'' (contents world_completed) = Some ?doc"
    by (simp add: getContentByJobId_def findOne_def byJobId_def world_completed_def doc_C1_def)
  have u1: "userId ?doc = ''u1''" and u2: "userId ?doc \<noteq> ''u2''"
    by (simp_all add: doc_C1_def)
  from status_poll_needs_the_queue_record [of "''content-C1''" world_pruned "''u1''"] q0
  have a: "getJobStatusHandler (Some ''u1'') ''content-C1'' world_pruned =
       Inr (404, Failure ''Job not found'')"
    by blast
  from status_poll_needs_the_queue_record [of "''content-C1''" world_completed "''u2''"] q1 c1 u2
  have b: "getJobStatusHandler (Some ''u2'') ''content-C1'' world_completed =
       Inr (404, Failure ''Content not found or access denied'')"
    by blast
  from status_poll_needs_the_queue_record [of "''content-C1''" world_completed "''u1''"] q1 c1 u1
  have "getJobStatusHandler (Some ''u1'') ''content-C1'' world_completed =
          Inr (200, JobStatusData ''content-C1''
                 \<lparr>view_state = info_state ?info, view_progress = info_progress ?info,
                  view_failedReason = info_failedReason ?info\<rparr>
                 \<lparr>view_id = doc_id ?doc, view_jobStatus = jobStatus ?doc,
                  view_generatedContent = generatedContent ?doc,
                  view_content = content ?doc\<rparr>)"
    by blast
  with a b q0 show ?thesis by (simp add: doc_C1_def)
qed

section \<open>The retry schedule\<close>

declare runJob.simps [simp del]

lemma runJob_always_failing:
  "m < attempts opts \<Longrightarrow>
   runJob opts (\<lambda>k. False) m =
     concat (map (\<lambda>k. [Attempt k, RetryAfter (backoffDelay opts k)]) [m + 1..<attempts opts])
     @ [Attempt (attempts opts), TerminalFailed]"
proof (induction "attempts opts - m" arbitrary: m)
  case 0
  then show ?case by simp
next
  case (Suc n)
  show ?case
  proof (cases "m + 1 < attempts opts")
    case True
    with Suc.hyps(2) have "n = attempts opts - (m + 1)" by simp
    from Suc.hyps(1) [OF this] True
    have ih: "runJob opts (\<lambda>k. False) (m + 1) =
        concat (map (\<lambda>k. [Attempt k, RetryAfter (backoffDelay opts k)]) [m + 1 + 1..<attempts opts])
        @ [Attempt (attempts opts), TerminalFailed]"
      by simp
    have "[m + 1..<attempts opts] = (m + 1) # [m + 1 + 1..<attempts opts]"
      using True by (simp add: upt_conv_Cons)
    with True ih show ?thesis
      by (subst runJob.simps) simp
  next
    case False
    with Suc.prems have "attempts opts = m + 1" by simp
    then show ?thesis
      by (subst runJob.simps) simp
  qed
qed

lemma retryDelays_concat:
  "retryDelays (concat (map (\<lambda>k. [Attempt k, RetryAfter (f k)]) ks) @ [Attempt n, TerminalFailed]) =
     map f ks"
  by (induction ks) simp_all

lemma attemptsOf_concat:
  "attemptsOf (concat (map (\<lambda>k. [Attempt k, RetryAfter (f k)]) ks) @ [Attempt n, TerminalFailed]) =
     ks @ [n]"
  by (induction ks) simp_all

text \<open>
  C5, amended. Under the retry policy, a job whose handler fails on every attempt is
  attempted exactly \<open>attempts\<close> times (attempts 1 to \<open>attempts\<close>); after the attempt
  that leaves \<open>attemptsMade\<close> attempts made it is re-enqueued with delay
  \<open>backoff_delay * 2^(attemptsMade - 1)\<close>, which gives \<open>attempts - 1\<close> delays; the last
  attempt ends in terminal \<open>failed\<close> with no retry after it. With the queue's options
  (3 attempts, base 2000 ms) the delays are 2000 ms and 4000 ms.
\<close>

theorem always_failing_job_schedule:
  assumes "1 \<le> attempts opts"
  shows "attemptsOf (runJob opts (\<lambda>k. False) 0) = [1..<attempts opts + 1]
       \<and> retryDelays (runJob opts (\<lambda>k. False) 0) =
           map (\<lambda>attemptsMade. backoff_delay opts * 2 ^ (attemptsMade - 1)) [1..<attempts opts]
       \<and> length (retryDelays (runJob opts (\<lambda>k. False) 0)) = attempts opts - 1
       \<and> last (runJob opts (\<lambda>k. False) 0) = TerminalFailed
       \<and> runJob opts (\<lambda>k. False) 0 =
           concat (map (\<lambda>k. [Attempt k, RetryAfter (backoff_delay opts * 2 ^ (k - 1))])
                     [1..<attempts opts])
           @ [Attempt (attempts opts), TerminalFailed]"
proof -
  from assms have "0 < attempts opts" by simp
  from runJob_always_failing [OF this]
  have run: "runJob opts (\<lambda>k. False) 0 =
      concat (map (\<lambda>k. [Attempt k, RetryAfter (backoffDelay opts k)]) [1..<attempts opts])
      @ [Attempt (attempts opts), TerminalFailed]"
    by simp
  have upt: "[1..<attempts opts] @ [attempts opts] = [1..<attempts opts + 1]"
    using assms by simp
  show ?thesis
    unfolding run retryDelays_concat attemptsOf_concat upt
    by (simp add: backoffDelay_def [abs_def])
qed

theorem always_failing_job_schedule_witness:
  "1 \<le> attempts defaultJobOptions
   \<and> attemptsOf (runJob defaultJobOptions (\<lambda>k. False) 0) = [1, 2, 3]
   \<and> retryDelays (runJob defaultJobOptions (\<lambda>k. False) 0) = [2000, 4000]
   \<and> runJob defaultJobOptions (\<lambda>k. False) 0 =
       [Attempt 1, RetryAfter 2000, Attempt 2, RetryAfter 4000, Attempt 3, TerminalFailed]"
proof -
  have h: "1 \<le> attempts defaultJobOptions"
    by (simp add: defaultJobOptions_def)
  have three: "[1..<attempts defaultJobOptions] = [1, 2]"
    "[1..<attempts defaultJobOptions + 1] = [1, 2, 3]"
    by (simp_all add: defaultJobOptions_def upt_rec)
  from always_failing_job_schedule [OF h] h show ?thesis
    unfolding three by (simp add: defaultJobOptions_def)
qed

lemma default_schedule:
  "runJob defaultJobOptions (\<lambda>k. False) 0 =
     [Attempt 1, RetryAfter 2000, Attempt 2, RetryAfter 4000, Attempt 3, TerminalFailed]"
proof -
  have "0 < attempts defaultJobOptions"
    by (simp add: defaultJobOptions_def)
  from runJob_always_failing [OF this] show ?thesis
    by (simp add: defaultJobOptions_def backoffDelay_def upt_rec)
qed

text \<open>
  C5, as the claim states it, fails: with the queue's options a job that always fails is
  attempted three times, and the delays between its attempts are 2000 ms and 4000 ms;
  they are not 2 s, 4 s and 8 s.
\<close>

theorem three_backoff_delays_counterexample:
  "attemptsOf (runJob defaultJobOptions (\<lambda>k. False) 0) = [1, 2, 3]
   \<and> retryDelays (runJob defaultJobOptions (\<lambda>k. False) 0) = [2000, 4000]
   \<and> retryDelays (runJob defaultJobOptions (\<lambda>k. False) 0) \<noteq> [2000, 4000, 8000]"
  by (simp add: default_schedule)

section \<open>Completion writes\<close>

text \<open>
  C10. The completion write seeds \<open>content\<close> by a falsiness test on the snapshot read
  before the write: when the snapshot has no document, or its \<open>content\<close> is \<open>null\<close> or
  the empty string, the document found at write time gets \<open>content = generatedContent\<close>;
  only when the snapshot's \<open>content\<close> is a non-empty string does the write leave
  \<open>content\<close> as it is at write time. \<open>generatedContent\<close> and \<open>jobStatus\<close> are written in
  every case.
\<close>

theorem completion_seeds_content_by_falsiness_of_snapshot:
  assumes "findOne (byJobId jid) (others coll) = Some d"
  shows "snd (updateContentJobStatus_interleaved others jid COMPLETED (Some g) coll) =
           Some (d\<lparr>jobStatus := COMPLETED, generatedContent := Some g,
                   content := (case findOne (byJobId jid) coll of
                                 None \<Rightarrow> Some g
                               | Some e \<Rightarrow> (case content e of
                                             None \<Rightarrow> Some g
                                           | Some s \<Rightarrow> if s = [] then Some g else content d))\<rparr>)
         \<and> findOne (byJobId jid)
             (fst (updateContentJobStatus_interleaved others jid COMPLETED (Some g) coll)) =
           snd (updateContentJobStatus_interleaved others jid COMPLETED (Some g) coll)"
proof -
  let ?u = "buildUpdateData (findOne (byJobId jid) coll) COMPLETED (Some g)"
  have res: "snd (updateContentJobStatus_interleaved others jid COMPLETED (Some g) coll) =
               Some (applySet ?u d)"
    using assms
    by (simp add: updateContentJobStatus_interleaved_def findOneAndUpdate_result findOne_def)
  have same: "findOne (byJobId jid)
                (fst (updateContentJobStatus_interleaved others jid COMPLETED (Some g) coll)) =
              Some (applySet ?u d)"
    using assms
    by (simp add: updateContentJobStatus_interleaved_def findOneAndUpdate_find_same findOne_def)
  have shape: "applySet ?u d =
      d\<lparr>jobStatus := COMPLETED, generatedContent := Some g,
        content := (case findOne (byJobId jid) coll of
                      None \<Rightarrow> Some g
                    | Some e \<Rightarrow> (case content e of
                                  None \<Rightarrow> Some g
                                | Some s \<Rightarrow> if s = [] then Some g else content d))\<rparr>"
    by (simp add: applySet_def buildUpdateData_def split: option.splits)
  show ?thesis
    using res same shape by simp
qed

theorem completion_seeds_content_by_falsiness_of_snapshot_witness:
  "findOne (byJobId ''content-C1'') [doc_C1 None (Some []) PROCESSING] =
     Some (doc_C1 None (Some []) PROCESSING)
   \<and> updateContentJobStatus_interleaved (\<lambda>coll. coll) ''content-C1'' COMPLETED (Some ''AI TEXT'')
       [doc_C1 None (Some []) PROCESSING] =
     ([doc_C1 (Some ''AI TEXT'') (Some ''AI TEXT'') COMPLETED],
      Some (doc_C1 (Some ''AI TEXT'') (Some ''AI TEXT'') COMPLETED))"
proof -
  have found: "findOne (byJobId ''content-C1'') ((\<lambda>coll. coll) [doc_C1 None (Some []) PROCESSING]) =
     Some (doc_C1 None (Some []) PROCESSING)"
    by (simp add: findOne_def byJobId_def doc_C1_def)
  from completion_seeds_content_by_falsiness_of_snapshot
         [where others = "\<lambda>coll. coll" and coll = "[doc_C1 None (Some []) PROCESSING]"
            and jid = "''content-C1''" and g = "''AI TEXT''", OF found] found
  show ?thesis
    by (simp add: updateContentJobStatus_interleaved_def findOne_def byJobId_def doc_C1_def
        buildUpdateData_def applySet_def)
qed

text \<open>
  C1. The claim: a completion write leaves \<open>content\<close> unchanged when a user edit has
  set it. The code at a user edit that sets \<open>content\<close> to the empty string: after the
  creation and the edit the document's \<open>content\<close> is \<open>""\<close>; the worker's completion
  write then replaces it by the generated text.
\<close>

theorem completion_overwrites_empty_user_edit:
  "contents (run init_world
      [PostContent (Some ''u1'') body_create ''C1'',
       PutContent (Some ''u1'') ''C1'' (JObj [(''content'', JStr [])])]) =
     [doc_C1 None (Some []) QUEUED]
   \<and> contents (run init_world
      [PostContent (Some ''u1'') body_create ''C1'',
       PutContent (Some ''u1'') ''C1'' (JObj [(''content'', JStr [])]),
       WorkerRuns ''content-C1'' ai_ok]) =
     [doc_C1 (Some ''AI TEXT'') (Some ''AI TEXT'') COMPLETED]"
  by (simp add: run_three run_two scenario_created scenario_edited scenario_completed
      del: step.simps)

end
